theory Spec2Isabelle
  imports Main "HOL-Library.AList"
begin

section \<open>Values, maps and the map store\<close>

text \<open>
  A Go \<^verbatim>\<open>interface{}\<close> value as it occurs in the configuration and parameter maps.
  Strings are byte sequences, as in Go. Nested maps and lists are never written to by the
  program and are kept as plain values.
\<close>

datatype val =
    VNil
  | VBool bool
  | VNum int
  | VStr string
  | VList "val list"
  | VMap "(string \<times> val) list"

text \<open>
  A Go map is a reference: copying a struct that holds a map copies the reference, not the
  entries. The entries of every \<^verbatim>\<open>map[string]interface{}\<close> live in a store, and a
  map-typed field holds \<open>None\<close> (the nil map) or \<open>Some r\<close>, the address of its entries.
\<close>

type_synonym obj = "(string \<times> val) list"
type_synonym ref = nat
type_synonym heap = "obj list"

definition hget :: "heap \<Rightarrow> ref \<Rightarrow> obj" where
  "hget h r = (if r < length h then h ! r else [])"

text \<open>\<^verbatim>\<open>make(map[string]interface{})\<close>: a fresh, empty map.\<close>

definition make_map :: "heap \<Rightarrow> ref \<times> heap" where
  "make_map h = (length h, h @ [[]])"

text \<open>\<^verbatim>\<open>m[k]\<close>: reading a nil map gives the zero value, here \<open>None\<close>.\<close>

definition mapIndex :: "heap \<Rightarrow> ref option \<Rightarrow> string \<Rightarrow> val option" where
  "mapIndex h m k = (case m of None \<Rightarrow> None | Some r \<Rightarrow> map_of (hget h r) k)"

text \<open>\<^verbatim>\<open>m[k] = v\<close> on a non-nil map: written through the reference.\<close>

definition mapAssign :: "heap \<Rightarrow> ref \<Rightarrow> string \<Rightarrow> val \<Rightarrow> heap" where
  "mapAssign h r k v = h[r := AList.update k v (hget h r)]"

text \<open>The type assertion \<^verbatim>\<open>x.(string)\<close> in its two-result form.\<close>

fun assertString :: "val option \<Rightarrow> string \<times> bool" where
  "assertString (Some (VStr s)) = (s, True)"
| "assertString _ = ('''', False)"

section \<open>Wire protocol types\<close>

text \<open>
  The three structs of the protocol package. The parameter \<open>'m\<close> is the representation
  of a \<^verbatim>\<open>map[string]interface{}\<close> field: \<open>ref\<close> for a value in memory, \<open>obj\<close> for a
  value as it travels on the connection. \<^verbatim>\<open>Payload\<close> is \<open>None\<close> for a nil slice.
  \<^verbatim>\<open>Headers\<close> is never written to by the program and is kept as a plain value.
\<close>

record 'm MessageContext =
  MessageID :: string
  Payload :: "string option"
  Properties :: "'m option"
  Headers :: "(string \<times> string) list option"

record 'm ConnectorOperationRequest =
  ConnectorName :: string
  OperationName :: string
  ConnectorConfig :: "'m option"
  OperationParams :: "'m option"
  MessageContextIn :: "'m MessageContext"

record 'm ConnectorOperationResponse =
  Success :: bool
  MessageContextOut :: "'m MessageContext"
  ErrorMessage :: string

text \<open>The zero value of \<^verbatim>\<open>MessageContext\<close>, which a struct literal leaves in a field it omits.\<close>

definition zeroMessageContext :: "'m MessageContext" where
  "zeroMessageContext = \<lparr>MessageID = '''', Payload = None, Properties = None, Headers = None\<rparr>"

section \<open>Connector definitions and instances\<close>

record 'm ConnectorDefinition =
  Name :: string
  ExecutablePathRelativeToConnectorsDir :: string
  DefaultPort :: int
  DefaultConfig :: "'m option"

text \<open>
  The part of \<^verbatim>\<open>exec.Cmd\<close> the manager reads: \<^verbatim>\<open>Process\<close> is the pid once the
  process is started, \<^verbatim>\<open>ProcessState\<close> is \<open>None\<close> until \<^verbatim>\<open>Wait\<close> has returned and
  then holds the value of \<^verbatim>\<open>Exited()\<close>.
\<close>

record ExecCmd =
  Path :: string
  Args :: "string list"
  Process :: "nat option"
  ProcessState :: "bool option"

record RunningConnectorInstance =
  Definition :: "ref ConnectorDefinition"
  Cmd :: "ExecCmd option"
  Port :: int

datatype error =
    ErrDefinitionNotFound string
  | ErrExecutableNotFound string
  | ErrStartFailed string string
  | ErrReadDir string string
  | ErrDial string
  | ErrEncode string
  | ErrDecode string

text \<open>\<^verbatim>\<open>err.Error()\<close>.\<close>

fun errorText :: "error \<Rightarrow> string" where
  "errorText (ErrDefinitionNotFound n) = ''connector definition for '' @ [CHR 0x27] @ n @ [CHR 0x27] @ '' not found''"
| "errorText (ErrExecutableNotFound p) = ''connector executable not found at '' @ p @ '' or '' @ p @ ''.exe''"
| "errorText (ErrStartFailed n e) = ''failed to start connector '' @ [CHR 0x27] @ n @ [CHR 0x27] @ '': '' @ e"
| "errorText (ErrReadDir d e) =
     ''failed to read connector definitions directory '' @ [CHR 0x27] @ d @ [CHR 0x27] @ '': '' @ e"
| "errorText (ErrDial e) = e"
| "errorText (ErrEncode e) = e"
| "errorText (ErrDecode e) = e"

section \<open>The operating system\<close>

text \<open>
  Library and system calls whose outcome the program cannot determine are parameters:
  each field gives the outcome of one call, an error being the text of \<^verbatim>\<open>err.Error()\<close>.
  \<^verbatim>\<open>Unmarshal\<close>, \<^verbatim>\<open>EncodeRequest\<close> and \<^verbatim>\<open>DecodeResponse\<close> stand for the JSON library
  and the connection: they take and give values in wire form.
\<close>

datatype stat_result = StatOk | StatNotExist | StatOtherError string

record os =
  Join :: "string \<Rightarrow> string \<Rightarrow> string"
  Ext :: "string \<Rightarrow> string"
  FormatInt :: "int \<Rightarrow> string"
  MkdirAll :: "string \<Rightarrow> string option"
  WriteFile :: "string \<Rightarrow> string \<Rightarrow> string option"
  ReadFile :: "string \<Rightarrow> string + string"
  ReadDir :: "string \<Rightarrow> string + string list"
  Unmarshal :: "string \<Rightarrow> string + obj ConnectorDefinition"
  Stat :: "string \<Rightarrow> stat_result"
  StartCmd :: "string \<Rightarrow> string list \<Rightarrow> string + nat"
  DialTimeout :: "string \<Rightarrow> string option"
  EncodeRequest :: "obj ConnectorOperationRequest \<Rightarrow> string option"
  DecodeResponse :: "obj ConnectorOperationRequest \<Rightarrow> string + obj ConnectorOperationResponse"
  SignalInterrupt :: "nat \<Rightarrow> string option"
  WaitExited :: "nat \<Rightarrow> bool"

section \<open>The sample worker (simple-file-connector)\<close>

datatype fs_action = FsMkdirAll string | FsWriteFile string string | FsReadFile string

record wstate =
  wheap :: heap
  fsops :: "fs_action list"

definition createFile ::
  "os \<Rightarrow> ref ConnectorOperationRequest \<Rightarrow> wstate \<Rightarrow> ref ConnectorOperationResponse \<times> wstate" where
  "createFile sys req s =
    (let (filename, okFile) = assertString (mapIndex (wheap s) (OperationParams req) ''filename'');
         (content, okContent) = assertString (mapIndex (wheap s) (OperationParams req) ''content'')
     in if \<not> okFile \<or> \<not> okContent then
          (\<lparr>Success = False, MessageContextOut = MessageContextIn req,
            ErrorMessage = ''filename or content parameter missing/invalid''\<rparr>, s)
        else
          let (baseDir0, ok) = assertString (mapIndex (wheap s) (ConnectorConfig req) ''baseDirectory'');
              baseDir = (if baseDir0 = '''' then ''.'' else baseDir0);
              s1 = s\<lparr>fsops := fsops s @ [FsMkdirAll baseDir]\<rparr>
          in case MkdirAll sys baseDir of
               Some err \<Rightarrow>
                 (\<lparr>Success = False, MessageContextOut = MessageContextIn req,
                   ErrorMessage = ''failed to create base directory '' @ baseDir @ '': '' @ err\<rparr>, s1)
             | None \<Rightarrow>
                (let fullPath = Join sys baseDir filename;
                     s2 = s1\<lparr>fsops := fsops s1 @ [FsWriteFile fullPath content]\<rparr>
                 in case WriteFile sys fullPath content of
                      Some err \<Rightarrow>
                        (\<lparr>Success = False, MessageContextOut = MessageContextIn req,
                          ErrorMessage = ''failed to write file '' @ fullPath @ '': '' @ err\<rparr>, s2)
                    | None \<Rightarrow>
                       (let outCtx = MessageContextIn req;
                            (r, h) = (case Properties outCtx of
                                        None \<Rightarrow> make_map (wheap s2)
                                      | Some r \<Rightarrow> (r, wheap s2));
                            outCtx = outCtx\<lparr>Properties := Some r\<rparr>;
                            h = mapAssign h r ''file.write.path'' (VStr fullPath);
                            h = mapAssign h r ''file.write.status'' (VStr ''success'')
                        in (\<lparr>Success = True, MessageContextOut = outCtx, ErrorMessage = ''''\<rparr>,
                            s2\<lparr>wheap := h\<rparr>))))"

definition readFile ::
  "os \<Rightarrow> ref ConnectorOperationRequest \<Rightarrow> wstate \<Rightarrow> ref ConnectorOperationResponse \<times> wstate" where
  "readFile sys req s =
    (let (filename, okFile) = assertString (mapIndex (wheap s) (OperationParams req) ''filename'')
     in if \<not> okFile then
          (\<lparr>Success = False, MessageContextOut = MessageContextIn req,
            ErrorMessage = ''filename parameter missing/invalid''\<rparr>, s)
        else
          let (baseDir0, ok) = assertString (mapIndex (wheap s) (ConnectorConfig req) ''baseDirectory'');
              baseDir = (if baseDir0 = '''' then ''.'' else baseDir0);
              fullPath = Join sys baseDir filename;
              s1 = s\<lparr>fsops := fsops s @ [FsReadFile fullPath]\<rparr>
          in case ReadFile sys fullPath of
               Inl err \<Rightarrow>
                 (\<lparr>Success = False, MessageContextOut = MessageContextIn req,
                   ErrorMessage = ''failed to read file '' @ fullPath @ '': '' @ err\<rparr>, s1)
             | Inr data \<Rightarrow>
                 let outCtx = MessageContextIn req;
                     outCtx = outCtx\<lparr>Payload := Some data\<rparr>;
                     (r, h) = (case Properties outCtx of
                                 None \<Rightarrow> make_map (wheap s1)
                               | Some r \<Rightarrow> (r, wheap s1));
                     outCtx = outCtx\<lparr>Properties := Some r\<rparr>;
                     h = mapAssign h r ''file.read.path'' (VStr fullPath)
                 in (\<lparr>Success = True, MessageContextOut = outCtx, ErrorMessage = ''''\<rparr>,
                     s1\<lparr>wheap := h\<rparr>))"

text \<open>
  \<^verbatim>\<open>handleConnection\<close> from the decoded request on: \<open>dec\<close> is the outcome of
  \<^verbatim>\<open>decoder.Decode(&req)\<close>, with the maps of a decoded request already in the store.
  The result is the response handed to \<^verbatim>\<open>encoder.Encode\<close>.
\<close>

definition handleConnection ::
  "os \<Rightarrow> string + ref ConnectorOperationRequest \<Rightarrow> wstate
     \<Rightarrow> ref ConnectorOperationResponse \<times> wstate" where
  "handleConnection sys dec s =
    (case dec of
       Inl err \<Rightarrow>
         (\<lparr>Success = False, MessageContextOut = zeroMessageContext,
           ErrorMessage = ''Failed to decode request: '' @ err\<rparr>, s)
     | Inr req \<Rightarrow>
         if OperationName req = ''create'' then createFile sys req s
         else if OperationName req = ''read'' then readFile sys req s
         else (\<lparr>Success = False, MessageContextOut = MessageContextIn req,
                ErrorMessage = ''Unknown operation: '' @ OperationName req\<rparr>, s))"

section \<open>The connector manager\<close>

text \<open>
  What the manager does to the outside, in order. \<open>ActEncode\<close> carries the request as
  it is written to the connection.
\<close>

datatype action =
    ActStart string "string list"
  | ActSleep
  | ActDial string
  | ActEncode "obj ConnectorOperationRequest"
  | ActDecode
  | ActClose
  | ActSignal nat
  | ActKill nat
  | ActWait nat

text \<open>
  The \<^verbatim>\<open>ConnectorManager\<close> struct; both of its maps are keyed by connector name. The
  state the manager runs in adds the map store, the trace of its actions and the lines it
  logs while loading definitions (log output is recorded for the loader only).
\<close>

record ConnectorManager =
  connectorDefinitions :: "(string \<times> ref ConnectorDefinition) list"
  runningInstances :: "(string \<times> RunningConnectorInstance) list"
  connectorsBaseDir :: string

record world = ConnectorManager +
  store :: heap
  trace :: "action list"
  logs :: "string list"

subsection \<open>Values in wire form and in memory\<close>

text \<open>
  Encoding reads the entries a map reference points to at that moment; decoding builds a
  fresh map for every map that is present.
\<close>

definition freezeContext :: "heap \<Rightarrow> ref MessageContext \<Rightarrow> obj MessageContext" where
  "freezeContext h c =
     \<lparr>MessageID = MessageID c, Payload = Payload c,
      Properties = map_option (hget h) (Properties c), Headers = Headers c\<rparr>"

definition freezeRequest ::
  "heap \<Rightarrow> ref ConnectorOperationRequest \<Rightarrow> obj ConnectorOperationRequest" where
  "freezeRequest h r =
     \<lparr>ConnectorName = ConnectorName r, OperationName = OperationName r,
      ConnectorConfig = map_option (hget h) (ConnectorConfig r),
      OperationParams = map_option (hget h) (OperationParams r),
      MessageContextIn = freezeContext h (MessageContextIn r)\<rparr>"

definition allocMap :: "heap \<Rightarrow> obj option \<Rightarrow> ref option \<times> heap" where
  "allocMap h m = (case m of None \<Rightarrow> (None, h) | Some entries \<Rightarrow> (Some (length h), h @ [entries]))"

definition allocDefinition ::
  "heap \<Rightarrow> obj ConnectorDefinition \<Rightarrow> ref ConnectorDefinition \<times> heap" where
  "allocDefinition h d =
     (let (cfg, h') = allocMap h (DefaultConfig d)
      in (\<lparr>Name = Name d,
           ExecutablePathRelativeToConnectorsDir = ExecutablePathRelativeToConnectorsDir d,
           DefaultPort = DefaultPort d, DefaultConfig = cfg\<rparr>, h'))"

definition allocResponse ::
  "heap \<Rightarrow> obj ConnectorOperationResponse \<Rightarrow> ref ConnectorOperationResponse \<times> heap" where
  "allocResponse h r =
     (let c = MessageContextOut r;
          (props, h') = allocMap h (Properties c)
      in (\<lparr>Success = Success r,
           MessageContextOut =
             \<lparr>MessageID = MessageID c, Payload = Payload c, Properties = props,
              Headers = Headers c\<rparr>,
           ErrorMessage = ErrorMessage r\<rparr>, h'))"

subsection \<open>NewConnectorManager\<close>

text \<open>The loop over the directory entries.\<close>

fun loadDefinitions :: "os \<Rightarrow> string \<Rightarrow> string list \<Rightarrow> world \<Rightarrow> world" where
  "loadDefinitions sys definitionsDir [] w = w"
| "loadDefinitions sys definitionsDir (file # files) w =
     (if Ext sys file = ''.json'' then
        let filePath = Join sys definitionsDir file
        in case ReadFile sys filePath of
             Inl err \<Rightarrow>
               loadDefinitions sys definitionsDir files
                 (w\<lparr>logs := logs w @
                      [''Warn: Could not read connector definition '' @ filePath @ '': '' @ err]\<rparr>)
           | Inr data \<Rightarrow>
               (case Unmarshal sys data of
                  Inl err \<Rightarrow>
                    loadDefinitions sys definitionsDir files
                      (w\<lparr>logs := logs w @
                           [''Warn: Could not parse connector definition '' @ filePath @ '': '' @ err]\<rparr>)
                | Inr parsed \<Rightarrow>
                    let (def, h) = allocDefinition (store w) parsed
                    in loadDefinitions sys definitionsDir files
                         (w\<lparr>connectorDefinitions :=
                              AList.update (Name def) def (connectorDefinitions w),
                            store := h,
                            logs := logs w @
                              [''ConnectorManager: Loaded definition for connector '' @
                               [CHR 0x27] @ Name def @ [CHR 0x27]]\<rparr>))
      else loadDefinitions sys definitionsDir files w)"

text \<open>The manager is created in a state \<open>w0\<close> of which it keeps store, trace and log.\<close>

definition NewConnectorManager :: "os \<Rightarrow> string \<Rightarrow> string \<Rightarrow> world \<Rightarrow> error + world" where
  "NewConnectorManager sys definitionsDir baseDir w0 =
     (let cm = w0\<lparr>connectorDefinitions := [], runningInstances := [],
                  connectorsBaseDir := baseDir\<rparr>
      in case ReadDir sys definitionsDir of
           Inl err \<Rightarrow> Inl (ErrReadDir definitionsDir err)
         | Inr files \<Rightarrow> Inr (loadDefinitions sys definitionsDir files cm))"

subsection \<open>getOrStartInstance\<close>

text \<open>The test of the fast path: the process is nil, or is known to have exited.\<close>

definition processGone :: "RunningConnectorInstance \<Rightarrow> bool" where
  "processGone instance =
     (case Cmd instance of
        None \<Rightarrow> True
      | Some c \<Rightarrow> (case ProcessState c of None \<Rightarrow> False | Some exited \<Rightarrow> exited))"

text \<open>The test after the write lock is taken.\<close>

definition processRunning :: "RunningConnectorInstance \<Rightarrow> bool" where
  "processRunning instance =
     (case Cmd instance of
        None \<Rightarrow> False
      | Some c \<Rightarrow> (case ProcessState c of None \<Rightarrow> True | Some exited \<Rightarrow> \<not> exited))"

text \<open>
  The part under the read lock and the health check that follows it: \<open>Some\<close> is the
  instance returned at once, \<open>None\<close> falls through to the start logic.
\<close>

definition fastPath :: "world \<Rightarrow> string \<Rightarrow> RunningConnectorInstance option" where
  "fastPath w connectorName =
     (case map_of (runningInstances w) connectorName of
        None \<Rightarrow> None
      | Some instance \<Rightarrow> if processGone instance then None else Some instance)"

text \<open>The part under the write lock, after the second check has failed.\<close>

definition spawnInstance ::
  "os \<Rightarrow> string \<Rightarrow> world \<Rightarrow> (error + RunningConnectorInstance) \<times> world" where
  "spawnInstance sys connectorName w =
     (case map_of (connectorDefinitions w) connectorName of
        None \<Rightarrow> (Inl (ErrDefinitionNotFound connectorName), w)
      | Some def \<Rightarrow>
         (let executablePath =
                Join sys (connectorsBaseDir w) (ExecutablePathRelativeToConnectorsDir def);
              found =
                (case Stat sys executablePath of
                   StatNotExist \<Rightarrow>
                     (case Stat sys (executablePath @ ''.exe'') of
                        StatOk \<Rightarrow> Some (executablePath @ ''.exe'')
                      | _ \<Rightarrow> None)
                 | _ \<Rightarrow> Some executablePath)
          in case found of
               None \<Rightarrow> (Inl (ErrExecutableNotFound executablePath), w)
             | Some executablePath \<Rightarrow>
                (let port = DefaultPort def;
                     args = [executablePath, ''-port='' @ FormatInt sys port];
                     w1 = w\<lparr>trace := trace w @ [ActStart executablePath args]\<rparr>
                 in case StartCmd sys executablePath args of
                      Inl err \<Rightarrow> (Inl (ErrStartFailed connectorName err), w1)
                    | Inr pid \<Rightarrow>
                       (let newInstance =
                              \<lparr>Definition = def,
                               Cmd = Some \<lparr>Path = executablePath, Args = args,
                                           Process = Some pid, ProcessState = None\<rparr>,
                               Port = port\<rparr>
                        in (Inr newInstance,
                            w1\<lparr>runningInstances :=
                                  AList.update connectorName newInstance (runningInstances w1),
                                trace := trace w1 @ [ActSleep]\<rparr>)))))"

text \<open>The whole of the part under the write lock.\<close>

definition startLocked ::
  "os \<Rightarrow> string \<Rightarrow> world \<Rightarrow> (error + RunningConnectorInstance) \<times> world" where
  "startLocked sys connectorName w =
     (case map_of (runningInstances w) connectorName of
        None \<Rightarrow> spawnInstance sys connectorName w
      | Some instance \<Rightarrow>
          if processRunning instance then (Inr instance, w)
          else spawnInstance sys connectorName w)"

definition getOrStartInstance ::
  "os \<Rightarrow> string \<Rightarrow> world \<Rightarrow> (error + RunningConnectorInstance) \<times> world" where
  "getOrStartInstance sys connectorName w =
     (case fastPath w connectorName of
        Some instance \<Rightarrow> (Inr instance, w)
      | None \<Rightarrow> startLocked sys connectorName w)"

subsection \<open>Invoke\<close>

text \<open>
  The merge of the per-call override over the instance's default configuration. The loop
  assigns every entry of the override, in the order the range statement yields them.
\<close>

definition mergeConfig :: "heap \<Rightarrow> ref option \<Rightarrow> ref option \<Rightarrow> ref option \<times> heap" where
  "mergeConfig h defaultConfig connectorConfigOverride =
     (let currentConnectorConfig = defaultConfig
      in case connectorConfigOverride of
           None \<Rightarrow> (currentConnectorConfig, h)
         | Some ov \<Rightarrow>
             let (r, h1) = (case currentConnectorConfig of
                              None \<Rightarrow> make_map h
                            | Some r \<Rightarrow> (r, h))
             in (Some r, fold (\<lambda>(k, v) h'. mapAssign h' r k v) (hget h1 ov) h1))"

definition failed :: "string \<Rightarrow> ref ConnectorOperationResponse" where
  "failed msg = \<lparr>Success = False, MessageContextOut = zeroMessageContext, ErrorMessage = msg\<rparr>"

definition Invoke ::
  "os \<Rightarrow> string \<Rightarrow> string \<Rightarrow> ref option \<Rightarrow> ref option \<Rightarrow> ref MessageContext \<Rightarrow> world
     \<Rightarrow> ref ConnectorOperationResponse \<times> error option \<times> world" where
  "Invoke sys connectorName operationName connectorConfigOverride operationParams msgCtxIn w =
     (case getOrStartInstance sys connectorName w of
        (Inl err, w1) \<Rightarrow> (failed (errorText err), Some err, w1)
      | (Inr instance, w1) \<Rightarrow>
         (let address = ''127.0.0.1:'' @ FormatInt sys (Port instance);
              w2 = w1\<lparr>trace := trace w1 @ [ActDial address]\<rparr>
          in case DialTimeout sys address of
               Some err \<Rightarrow>
                 (failed (''failed to connect to connector '' @ [CHR 0x27] @ connectorName @
                          [CHR 0x27] @ '': '' @ err),
                  Some (ErrDial err), w2)
             | None \<Rightarrow>
                (let (currentConnectorConfig, h) =
                       mergeConfig (store w2) (DefaultConfig (Definition instance))
                         connectorConfigOverride;
                     req = \<lparr>ConnectorName = connectorName, OperationName = operationName,
                            ConnectorConfig = currentConnectorConfig,
                            OperationParams = operationParams,
                            MessageContextIn = msgCtxIn\<rparr>;
                     wire = freezeRequest h req;
                     w3 = w2\<lparr>store := h, trace := trace w2 @ [ActEncode wire]\<rparr>
                 in case EncodeRequest sys wire of
                      Some err \<Rightarrow>
                        (failed (''failed to send request to connector '' @ [CHR 0x27] @
                                 connectorName @ [CHR 0x27] @ '': '' @ err),
                         Some (ErrEncode err), w3\<lparr>trace := trace w3 @ [ActClose]\<rparr>)
                    | None \<Rightarrow>
                       (let w4 = w3\<lparr>trace := trace w3 @ [ActDecode]\<rparr>
                        in case DecodeResponse sys wire of
                             Inl err \<Rightarrow>
                               (failed (''failed to decode response from connector '' @
                                        [CHR 0x27] @ connectorName @ [CHR 0x27] @ '': '' @ err),
                                Some (ErrDecode err), w4\<lparr>trace := trace w4 @ [ActClose]\<rparr>)
                           | Inr decoded \<Rightarrow>
                              (let (resp, h') = allocResponse (store w4) decoded
                               in (resp, None,
                                   w4\<lparr>store := h', trace := trace w4 @ [ActClose]\<rparr>))))))"

subsection \<open>ShutdownAll\<close>

text \<open>\<^verbatim>\<open>cmd.Wait()\<close>: a command that was waited for before is left as it is.\<close>

definition waitCmd :: "os \<Rightarrow> nat \<Rightarrow> ExecCmd \<Rightarrow> ExecCmd" where
  "waitCmd sys pid c =
     (case ProcessState c of
        None \<Rightarrow> c\<lparr>ProcessState := Some (WaitExited sys pid)\<rparr>
      | Some e \<Rightarrow> c)"

text \<open>
  The loop over the instance table. The entries are visited in the order of the list; Go
  leaves the order of a range over a map open.
\<close>

fun terminateAll :: "os \<Rightarrow> (string \<times> RunningConnectorInstance) list \<Rightarrow> world \<Rightarrow> world" where
  "terminateAll sys [] w = w"
| "terminateAll sys ((name, instance) # rest) w =
     (case Cmd instance of
        None \<Rightarrow> terminateAll sys rest w
      | Some c \<Rightarrow>
          (case Process c of
             None \<Rightarrow> terminateAll sys rest w
           | Some pid \<Rightarrow>
               let t1 = trace w @ [ActSignal pid];
                   t2 = (case SignalInterrupt sys pid of
                           Some err \<Rightarrow> t1 @ [ActKill pid]
                         | None \<Rightarrow> t1);
                   instance' = instance\<lparr>Cmd := Some (waitCmd sys pid c)\<rparr>
               in terminateAll sys rest
                    (w\<lparr>runningInstances := AList.update name instance' (runningInstances w),
                       trace := t2 @ [ActWait pid]\<rparr>)))"

definition ShutdownAll :: "os \<Rightarrow> world \<Rightarrow> world" where
  "ShutdownAll sys w = (terminateAll sys (runningInstances w) w)\<lparr>runningInstances := []\<rparr>"

section \<open>Two concurrent callers of getOrStartInstance\<close>

text \<open>
  Each caller runs \<^verbatim>\<open>getOrStartInstance\<close> in two steps, the granularity the locks give:
  the lookup under the read lock with its health check, and, if that did not return, the
  whole section under the write lock. A schedule says which caller moves next.
\<close>

datatype pc = AtEntry | AtLock | Returned "error + RunningConnectorInstance"

fun stepCaller :: "os \<Rightarrow> string \<Rightarrow> pc \<Rightarrow> world \<Rightarrow> pc \<times> world" where
  "stepCaller sys connectorName AtEntry w =
     (case fastPath w connectorName of
        Some instance \<Rightarrow> (Returned (Inr instance), w)
      | None \<Rightarrow> (AtLock, w))"
| "stepCaller sys connectorName AtLock w =
     (case startLocked sys connectorName w of (r, w') \<Rightarrow> (Returned r, w'))"
| "stepCaller sys connectorName (Returned r) w = (Returned r, w)"

fun interleave :: "os \<Rightarrow> string \<Rightarrow> bool list \<Rightarrow> pc \<times> pc \<times> world \<Rightarrow> pc \<times> pc \<times> world" where
  "interleave sys connectorName [] c = c"
| "interleave sys connectorName (first # sched) (a, b, w) =
     (if first then
        (case stepCaller sys connectorName a w of
           (a', w') \<Rightarrow> interleave sys connectorName sched (a', b, w'))
      else
        (case stepCaller sys connectorName b w of
           (b', w') \<Rightarrow> interleave sys connectorName sched (a, b', w')))"

text \<open>The spawn counter: how often a process was started.\<close>

fun isStart :: "action \<Rightarrow> bool" where
  "isStart (ActStart p a) = True"
| "isStart _ = False"

definition spawnCount :: "world \<Rightarrow> nat" where
  "spawnCount w = length (filter isStart (trace w))"

text \<open>The requests written to connections, oldest first.\<close>

fun sentRequests :: "action list \<Rightarrow> obj ConnectorOperationRequest list" where
  "sentRequests [] = []"
| "sentRequests (ActEncode r # t) = r # sentRequests t"
| "sentRequests (a # t) = sentRequests t"

section \<open>What the loader is expected to keep\<close>

text \<open>
  A record of the definitions directory is usable when its name ends in \<^verbatim>\<open>.json\<close>, it
  can be read and its content parses; \<open>usableRecords\<close> are the parsed records in the order
  of the directory listing.
\<close>

definition parseRecord :: "os \<Rightarrow> string \<Rightarrow> string \<Rightarrow> obj ConnectorDefinition option" where
  "parseRecord sys definitionsDir file =
     (if Ext sys file = ''.json'' then
        (case ReadFile sys (Join sys definitionsDir file) of
           Inl err \<Rightarrow> None
         | Inr data \<Rightarrow> (case Unmarshal sys data of Inl err \<Rightarrow> None | Inr d \<Rightarrow> Some d))
      else None)"

definition usableRecords :: "os \<Rightarrow> string \<Rightarrow> string list \<Rightarrow> obj ConnectorDefinition list" where
  "usableRecords sys definitionsDir files = List.map_filter (parseRecord sys definitionsDir) files"

definition skippedRecords :: "os \<Rightarrow> string \<Rightarrow> string list \<Rightarrow> string list" where
  "skippedRecords sys definitionsDir files =
     filter (\<lambda>file. Ext sys file = ''.json'' \<and> parseRecord sys definitionsDir file = None) files"

definition isWarning :: "string \<Rightarrow> bool" where
  "isWarning line = (take 6 line = ''Warn: '')"

text \<open>A stored definition with the entries of its default configuration read from the store.\<close>

definition freezeDefinition :: "heap \<Rightarrow> ref ConnectorDefinition \<Rightarrow> obj ConnectorDefinition" where
  "freezeDefinition h d =
     \<lparr>Name = Name d,
      ExecutablePathRelativeToConnectorsDir = ExecutablePathRelativeToConnectorsDir d,
      DefaultPort = DefaultPort d, DefaultConfig = map_option (hget h) (DefaultConfig d)\<rparr>"

definition lookupDefinition :: "world \<Rightarrow> string \<Rightarrow> obj ConnectorDefinition option" where
  "lookupDefinition w name =
     map_option (freezeDefinition (store w)) (map_of (connectorDefinitions w) name)"

text \<open>Every default configuration of the table points into the store.\<close>

definition wfDefinitions :: "world \<Rightarrow> bool" where
  "wfDefinitions w =
     (\<forall>n d r. map_of (connectorDefinitions w) n = Some d \<longrightarrow> DefaultConfig d = Some r
              \<longrightarrow> r < length (store w))"

text \<open>Reading a key of a map in wire form.\<close>

definition entry :: "obj option \<Rightarrow> string \<Rightarrow> val option" where
  "entry m k = (case m of None \<Rightarrow> None | Some entries \<Rightarrow> map_of entries k)"

section \<open>What counts as a business failure of the worker\<close>

text \<open>
  The causes the worker reports as a failed operation: a parameter the operation needs is
  missing or is no string, a file-system call the operation made returned an error, or the
  operation is none the worker has. The file-system calls of an operation are the ones it
  added to \<open>fsops\<close>.
\<close>

fun fsFailed :: "os \<Rightarrow> fs_action \<Rightarrow> bool" where
  "fsFailed sys (FsMkdirAll d) = (case MkdirAll sys d of None \<Rightarrow> False | Some err \<Rightarrow> True)"
| "fsFailed sys (FsWriteFile p c) = (case WriteFile sys p c of None \<Rightarrow> False | Some err \<Rightarrow> True)"
| "fsFailed sys (FsReadFile p) = (case ReadFile sys p of Inl err \<Rightarrow> True | Inr data \<Rightarrow> False)"

definition fileSystemError :: "os \<Rightarrow> wstate \<Rightarrow> wstate \<Rightarrow> bool" where
  "fileSystemError sys s s' = list_ex (fsFailed sys) (drop (length (fsops s)) (fsops s'))"

definition stringParameter :: "wstate \<Rightarrow> ref ConnectorOperationRequest \<Rightarrow> string \<Rightarrow> bool" where
  "stringParameter s req k =
     (case mapIndex (wheap s) (OperationParams req) k of Some (VStr v) \<Rightarrow> True | _ \<Rightarrow> False)"

definition parameterError :: "wstate \<Rightarrow> ref ConnectorOperationRequest \<Rightarrow> bool" where
  "parameterError s req =
     (if OperationName req = ''create'' then
        \<not> (stringParameter s req ''filename'' \<and> stringParameter s req ''content'')
      else if OperationName req = ''read'' then \<not> stringParameter s req ''filename''
      else False)"

definition unknownOperation :: "ref ConnectorOperationRequest \<Rightarrow> bool" where
  "unknownOperation req = (OperationName req \<noteq> ''create'' \<and> OperationName req \<noteq> ''read'')"

definition businessFailure ::
  "os \<Rightarrow> ref ConnectorOperationRequest \<Rightarrow> wstate \<Rightarrow> wstate \<Rightarrow> bool" where
  "businessFailure sys req s s' =
     (parameterError s req \<or> fileSystemError sys s s' \<or> unknownOperation req)"

section \<open>Example inputs\<close>

text \<open>
  A system in which every call succeeds: the definitions directory holds one good record
  for connector \<open>F\<close>, one record that does not parse and one file that is no record; the
  worker answers every request with success and the context it was sent.
\<close>

definition definitionF :: "obj ConnectorDefinition" where
  "definitionF =
     \<lparr>Name = ''F'', ExecutablePathRelativeToConnectorsDir = ''file/file'',
      DefaultPort = 9091, DefaultConfig = Some [(''baseDirectory'', VStr ''/a'')]\<rparr>"

definition exampleOs :: os where
  "exampleOs =
     \<lparr>Join = (\<lambda>a b. a @ ''/'' @ b),
      Ext = (\<lambda>f. drop (length f - 5) f),
      FormatInt = (\<lambda>i. if i = 9091 then ''9091'' else ''0''),
      MkdirAll = (\<lambda>d. None),
      WriteFile = (\<lambda>p c. None),
      ReadFile = (\<lambda>p. if p = ''defs/f.json'' then Inr ''F''
                       else if p = ''defs/bad.json'' then Inr ''{''
                       else Inl ''no such file or directory''),
      ReadDir = (\<lambda>d. if d = ''defs'' then Inr [''bad.json'', ''f.json'', ''notes.txt'']
                      else Inl ''no such file or directory''),
      Unmarshal = (\<lambda>data. if data = ''F'' then Inr definitionF
                         else Inl ''unexpected end of JSON input''),
      Stat = (\<lambda>p. StatOk),
      StartCmd = (\<lambda>p a. Inr 4242),
      DialTimeout = (\<lambda>a. None),
      EncodeRequest = (\<lambda>r. None),
      DecodeResponse =
        (\<lambda>r. Inr \<lparr>Success = True, MessageContextOut = MessageContextIn r, ErrorMessage = []\<rparr>),
      SignalInterrupt = (\<lambda>p. None),
      WaitExited = (\<lambda>p. False)\<rparr>"

text \<open>The same system with a worker that refuses connections.\<close>

definition refusingOs :: os where
  "refusingOs = exampleOs\<lparr>DialTimeout := (\<lambda>a. Some ''connection refused'')\<rparr>"

definition emptyWorld :: world where
  "emptyWorld =
     \<lparr>connectorDefinitions = [], runningInstances = [], connectorsBaseDir = [],
      store = [], trace = [], logs = []\<rparr>"

text \<open>
  The manager after loading the example directory: connector \<open>F\<close> is defined, its
  default configuration is at address 0 of the store, and nothing is running.
\<close>

definition loadedWorld :: world where
  "loadedWorld =
     \<lparr>connectorDefinitions =
        [(''F'', \<lparr>Name = ''F'', ExecutablePathRelativeToConnectorsDir = ''file/file'',
                  DefaultPort = 9091, DefaultConfig = Some 0\<rparr>)],
      runningInstances = [], connectorsBaseDir = ''connectors'',
      store = [[(''baseDirectory'', VStr ''/a'')]], trace = [], logs = []\<rparr>"

definition exampleContext :: "ref MessageContext" where
  "exampleContext =
     \<lparr>MessageID = ''m-1'', Payload = Some ''data'', Properties = None,
      Headers = Some [(''X-Request-ID'', ''123'')]\<rparr>"

text \<open>The instance of \<open>F\<close> as the example system starts it, and the manager tracking it.\<close>

definition instanceF :: RunningConnectorInstance where
  "instanceF =
     \<lparr>Definition = \<lparr>Name = ''F'', ExecutablePathRelativeToConnectorsDir = ''file/file'',
                     DefaultPort = 9091, DefaultConfig = Some 0\<rparr>,
      Cmd = Some \<lparr>Path = ''connectors/file/file'',
                  Args = [''connectors/file/file'', ''-port=9091''],
                  Process = Some 4242, ProcessState = None\<rparr>,
      Port = 9091\<rparr>"

definition startedWorld :: world where
  "startedWorld =
     loadedWorld\<lparr>runningInstances := [(''F'', instanceF)],
                  trace := [ActStart ''connectors/file/file''
                              [''connectors/file/file'', ''-port=9091''], ActSleep]\<rparr>"

text \<open>
  The same manager when a caller holds an override map, at address 1 of the store.
\<close>

definition overrideWorld :: world where
  "overrideWorld =
     startedWorld\<lparr>store := store startedWorld @
                       [[(''baseDirectory'', VStr ''/b''), (''x'', VStr ''y'')]]\<rparr>"

text \<open>
  Requests as the worker holds them after decoding: the configuration is at address 0 of
  the worker's store, the parameters at address 1 and the properties at address 2.
\<close>

definition readRequest :: "ref ConnectorOperationRequest" where
  "readRequest =
     \<lparr>ConnectorName = ''F'', OperationName = ''read'', ConnectorConfig = Some 0,
      OperationParams = Some 1,
      MessageContextIn = \<lparr>MessageID = ''m-2'', Payload = None, Properties = Some 2,
                           Headers = None\<rparr>\<rparr>"

definition readState :: wstate where
  "readState =
     \<lparr>wheap = [[(''baseDirectory'', VStr ''data'')],
               [(''filename'', VStr ''missing.txt'')],
               [(''flowName'', VStr ''fileReadFlow'')]],
      fsops = []\<rparr>"

definition missingOs :: os where
  "missingOs = exampleOs\<lparr>ReadFile := (\<lambda>p. Inl ''no such file or directory'')\<rparr>"

definition createRequest :: "ref ConnectorOperationRequest" where
  "createRequest =
     \<lparr>ConnectorName = ''F'', OperationName = ''create'', ConnectorConfig = Some 0,
      OperationParams = Some 1,
      MessageContextIn = \<lparr>MessageID = ''m-1'', Payload = Some ''data'', Properties = Some 2,
                           Headers = None\<rparr>\<rparr>"

definition createState :: wstate where
  "createState =
     \<lparr>wheap = [[(''baseDirectory'', VStr ''data'')],
               [(''filename'', VStr ''t.txt''), (''content'', VStr ''hi'')],
               [(''flowName'', VStr ''fileCreateFlow'')]],
      fsops = []\<rparr>"

text \<open>
  Worker inputs on which an operation fails: a file system that refuses to write or to
  create directories, a request whose \<open>content\<close> parameter is a number, and a request
  for an operation the worker does not have.
\<close>

definition writeDeniedOs :: os where
  "writeDeniedOs = exampleOs\<lparr>WriteFile := (\<lambda>p c. Some ''permission denied'')\<rparr>"

definition mkdirDeniedOs :: os where
  "mkdirDeniedOs = exampleOs\<lparr>MkdirAll := (\<lambda>d. Some ''permission denied'')\<rparr>"

definition numericContentState :: wstate where
  "numericContentState =
     \<lparr>wheap = [[(''baseDirectory'', VStr ''data'')],
               [(''filename'', VStr ''t.txt''), (''content'', VNum 7)],
               [(''flowName'', VStr ''fileCreateFlow'')]],
      fsops = []\<rparr>"

definition deleteRequest :: "ref ConnectorOperationRequest" where
  "deleteRequest = createRequest\<lparr>OperationName := ''delete''\<rparr>"

section \<open>Properties of the worker\<close>

lemma createFile_failure:
  assumes "createFile sys req s = (resp, s')" and "\<not> Success resp"
  shows "ErrorMessage resp \<noteq> '''' \<and> MessageContextOut resp = MessageContextIn req
         \<and> wheap s' = wheap s"
  using assms unfolding createFile_def
  by (auto simp: Let_def split: prod.splits option.splits if_splits)

lemma readFile_failure:
  assumes "readFile sys req s = (resp, s')" and "\<not> Success resp"
  shows "ErrorMessage resp \<noteq> '''' \<and> MessageContextOut resp = MessageContextIn req
         \<and> wheap s' = wheap s"
  using assms unfolding readFile_def
  by (auto simp: Let_def split: prod.splits sum.splits option.splits if_splits)

lemma assertString_ok: "snd (assertString x) = (case x of Some (VStr v) \<Rightarrow> True | _ \<Rightarrow> False)"
  by (cases x rule: assertString.cases) simp_all

lemma createFile_success:
  assumes "createFile sys req s = (resp, s')"
  shows "Success resp =
           (stringParameter s req ''filename'' \<and> stringParameter s req ''content''
            \<and> \<not> fileSystemError sys s s')"
proof -
  obtain filename okFile where f: "assertString (mapIndex (wheap s) (OperationParams req) ''filename'') = (filename, okFile)"
    by (cases "assertString (mapIndex (wheap s) (OperationParams req) ''filename'')")
  obtain content okContent where c: "assertString (mapIndex (wheap s) (OperationParams req) ''content'') = (content, okContent)"
    by (cases "assertString (mapIndex (wheap s) (OperationParams req) ''content'')")
  from f have pf: "stringParameter s req ''filename'' = okFile"
    using assertString_ok [of "mapIndex (wheap s) (OperationParams req) ''filename''"]
    by (simp add: stringParameter_def)
  from c have pc: "stringParameter s req ''content'' = okContent"
    using assertString_ok [of "mapIndex (wheap s) (OperationParams req) ''content''"]
    by (simp add: stringParameter_def)
  from assms show ?thesis
    unfolding createFile_def f c pf pc fileSystemError_def
    by (auto simp: Let_def split: prod.splits option.splits if_splits)
qed

lemma readFile_success:
  assumes "readFile sys req s = (resp, s')"
  shows "Success resp = (stringParameter s req ''filename'' \<and> \<not> fileSystemError sys s s')"
proof -
  obtain filename okFile where f: "assertString (mapIndex (wheap s) (OperationParams req) ''filename'') = (filename, okFile)"
    by (cases "assertString (mapIndex (wheap s) (OperationParams req) ''filename'')")
  from f have pf: "stringParameter s req ''filename'' = okFile"
    using assertString_ok [of "mapIndex (wheap s) (OperationParams req) ''filename''"]
    by (simp add: stringParameter_def)
  from assms show ?thesis
    unfolding readFile_def f pf fileSystemError_def
    by (auto simp: Let_def split: prod.splits sum.splits option.splits if_splits)
qed

lemma handleConnection_success:
  assumes "handleConnection sys (Inr req) s = (resp, s')"
  shows "Success resp = (\<not> businessFailure sys req s s')"
proof (cases "OperationName req = ''create''")
  case True
  with assms have "createFile sys req s = (resp, s')" by (simp add: handleConnection_def)
  from createFile_success [OF this] True show ?thesis
    by (auto simp: businessFailure_def parameterError_def unknownOperation_def)
next
  case notCreate: False
  show ?thesis
  proof (cases "OperationName req = ''read''")
    case True
    with notCreate assms have "readFile sys req s = (resp, s')" by (simp add: handleConnection_def)
    from readFile_success [OF this] True notCreate show ?thesis
      by (auto simp: businessFailure_def parameterError_def unknownOperation_def)
  next
    case False
    with notCreate assms show ?thesis
      by (auto simp: handleConnection_def businessFailure_def unknownOperation_def)
  qed
qed

section \<open>Properties of the map store\<close>

lemma map_of_rev_distinct:
  "distinct (map fst xs) \<Longrightarrow> map_of (rev xs) k = map_of xs k"
proof (induction xs)
  case Nil
  show ?case by simp
next
  case (Cons x xs)
  then have "fst x \<notin> fst ` set xs" and IH: "map_of (rev xs) k = map_of xs k" by auto
  then have "map_of (rev xs) (fst x) = None" by (simp add: map_of_eq_None_iff)
  with IH show ?case
    by (cases x) (auto simp: map_add_def split: option.splits)
qed

lemma hget_mapAssign_same:
  "r < length h \<Longrightarrow> hget (mapAssign h r k v) r = AList.update k v (hget h r)"
  by (simp add: hget_def mapAssign_def)

lemma hget_mapAssign_other:
  "r' \<noteq> r \<Longrightarrow> hget (mapAssign h r k v) r' = hget h r'"
  by (simp add: hget_def mapAssign_def)

lemma length_mapAssign: "length (mapAssign h r k v) = length h"
  by (simp add: mapAssign_def)

lemma map_of_fold_update:
  "map_of (fold (\<lambda>(k, v) m. AList.update k v m) es m) k =
     (case map_of (rev es) k of Some v \<Rightarrow> Some v | None \<Rightarrow> map_of m k)"
proof (induction es arbitrary: m)
  case Nil
  show ?case by simp
next
  case (Cons e es)
  obtain k' v' where e: "e = (k', v')" by (cases e)
  show ?case
    by (simp add: e Cons.IH update_conv' map_add_def split: option.splits)
qed

lemma fold_mapAssign_length:
  "length (fold (\<lambda>(k, v) h'. mapAssign h' r k v) es h) = length h"
  by (induction es arbitrary: h) (auto simp: length_mapAssign)

lemma fold_mapAssign_same:
  "r < length h \<Longrightarrow>
   hget (fold (\<lambda>(k, v) h'. mapAssign h' r k v) es h) r =
     fold (\<lambda>(k, v) m. AList.update k v m) es (hget h r)"
proof (induction es arbitrary: h)
  case Nil
  show ?case by simp
next
  case (Cons e es)
  obtain k v where e: "e = (k, v)" by (cases e)
  from Cons.prems have "r < length (mapAssign h r k v)" by (simp add: length_mapAssign)
  from Cons.IH [OF this] Cons.prems show ?case
    by (simp add: e hget_mapAssign_same)
qed

lemma fold_mapAssign_other:
  "r' \<noteq> r \<Longrightarrow> hget (fold (\<lambda>(k, v) h'. mapAssign h' r k v) es h) r' = hget h r'"
  by (induction es arbitrary: h) (auto simp: hget_mapAssign_other)

lemma mergeConfig_lookup:
  assumes d: "\<forall>r. d = Some r \<longrightarrow> r < length h"
      and ov: "\<forall>r. ov = Some r \<longrightarrow> distinct (map fst (hget h r))"
      and m: "mergeConfig h d ov = (cfg, h')"
  shows "mapIndex h' cfg k =
           (case mapIndex h ov k of Some v \<Rightarrow> Some v | None \<Rightarrow> mapIndex h d k)"
proof (cases ov)
  case None
  with m show ?thesis by (simp add: mergeConfig_def mapIndex_def)
next
  case (Some o1)
  with ov have dist: "distinct (map fst (hget h o1))" by simp
  show ?thesis
  proof (cases d)
    case None
    have fresh: "hget (h @ [[]]) (length h) = []" by (simp add: hget_def)
    have "hget (h @ [[]]) o1 = hget h o1"
      by (auto simp: hget_def nth_append)
    with m None Some dist fresh show ?thesis
      by (auto simp: mergeConfig_def mapIndex_def make_map_def Let_def fold_mapAssign_same
          map_of_fold_update map_of_rev_distinct split: option.splits)
  next
    case (Some r)
    with d have "r < length h" by simp
    with m Some \<open>ov = Some o1\<close> dist show ?thesis
      by (auto simp: mergeConfig_def mapIndex_def Let_def fold_mapAssign_same
          map_of_fold_update map_of_rev_distinct split: option.splits)
  qed
qed

section \<open>Properties of getOrStartInstance\<close>

lemma processRunning_iff: "processRunning i = (\<not> processGone i)"
  by (simp add: processRunning_def processGone_def split: option.splits)

lemma spawnInstance_error:
  assumes "spawnInstance sys n w = (Inl e, w1)"
  shows "errorText e \<noteq> '''' \<and> runningInstances w1 = runningInstances w
         \<and> connectorDefinitions w1 = connectorDefinitions w \<and> store w1 = store w"
  using assms unfolding spawnInstance_def
  by (auto simp: Let_def split: option.splits stat_result.splits sum.splits)

lemma spawnInstance_ok:
  assumes "spawnInstance sys n w = (Inr i, w1)"
  shows "map_of (runningInstances w1) n = Some i \<and> processRunning i
         \<and> runningInstances w1 = AList.update n i (runningInstances w)
         \<and> connectorDefinitions w1 = connectorDefinitions w \<and> store w1 = store w
         \<and> map_of (connectorDefinitions w) n = Some (Definition i)
         \<and> spawnCount w1 = Suc (spawnCount w)"
  using assms unfolding spawnInstance_def
  by (auto simp: Let_def update_conv' processRunning_def spawnCount_def
      split: option.splits stat_result.splits sum.splits)

lemma getOrStartInstance_error:
  assumes "getOrStartInstance sys n w = (Inl e, w1)"
  shows "errorText e \<noteq> '''' \<and> runningInstances w1 = runningInstances w
         \<and> connectorDefinitions w1 = connectorDefinitions w \<and> store w1 = store w"
  using assms spawnInstance_error [of sys n w e w1]
  unfolding getOrStartInstance_def startLocked_def
  by (auto split: option.splits if_splits)

lemma getOrStartInstance_ok:
  assumes "getOrStartInstance sys n w = (Inr i, w1)"
  shows "map_of (runningInstances w1) n = Some i \<and> processRunning i
         \<and> connectorDefinitions w1 = connectorDefinitions w \<and> store w1 = store w"
  using assms spawnInstance_ok [of sys n w i w1]
  unfolding getOrStartInstance_def startLocked_def fastPath_def
  by (auto simp: processRunning_iff split: option.splits if_splits)

section \<open>Properties of the definition loader\<close>

lemma freezeDefinition_alloc:
  "allocDefinition h parsed = (d, h') \<Longrightarrow>
   freezeDefinition h' d = parsed \<and> Name d = Name parsed \<and> length h \<le> length h'
   \<and> (\<forall>r. DefaultConfig d = Some r \<longrightarrow> r < length h')
   \<and> (\<forall>r < length h. hget h' r = hget h r)"
  by (cases "DefaultConfig parsed")
     (auto simp: allocDefinition_def allocMap_def freezeDefinition_def hget_def nth_append)

lemma lookupDefinition_stored:
  fixes l :: "string list"
  assumes wf: "wfDefinitions w" and a: "allocDefinition (store w) parsed = (d, h)"
  defines "w' \<equiv> w\<lparr>connectorDefinitions := AList.update (Name d) d (connectorDefinitions w),
                    store := h, logs := l\<rparr>"
  shows "wfDefinitions w'"
    and "lookupDefinition w' n = (if n = Name parsed then Some parsed else lookupDefinition w n)"
proof -
  note f = freezeDefinition_alloc [OF a]
  show "wfDefinitions w'"
    using wf f unfolding wfDefinitions_def w'_def
    by (auto simp: update_conv' split: if_splits) (metis less_le_trans)+
  show "lookupDefinition w' n = (if n = Name parsed then Some parsed else lookupDefinition w n)"
  proof (cases "n = Name parsed")
    case True
    with f show ?thesis by (simp add: lookupDefinition_def w'_def update_conv')
  next
    case False
    have "freezeDefinition h x = freezeDefinition (store w) x"
      if "map_of (connectorDefinitions w) n = Some x" for x
    proof (cases "DefaultConfig x")
      case None
      then show ?thesis by (simp add: freezeDefinition_def)
    next
      case (Some r)
      with wf that have "r < length (store w)" unfolding wfDefinitions_def by blast
      with f Some show ?thesis by (simp add: freezeDefinition_def)
    qed
    with False f show ?thesis
      by (cases "map_of (connectorDefinitions w) n")
         (auto simp: lookupDefinition_def w'_def update_conv')
  qed
qed

lemma loadDefinitions_lookup:
  "wfDefinitions w \<Longrightarrow>
   lookupDefinition (loadDefinitions sys dir files w) n =
     (case map_of (rev (map (\<lambda>d. (Name d, d)) (usableRecords sys dir files))) n of
        Some d \<Rightarrow> Some d
      | None \<Rightarrow> lookupDefinition w n)"
proof (induction files arbitrary: w)
  case Nil
  show ?case by (simp add: usableRecords_def map_filter_simps)
next
  case (Cons f files)
  show ?case
  proof (cases "parseRecord sys dir f")
    case None
    have keep: "wfDefinitions (w\<lparr>logs := l\<rparr>)" "lookupDefinition (w\<lparr>logs := l\<rparr>) n = lookupDefinition w n" for l
      using Cons.prems by (simp_all add: wfDefinitions_def lookupDefinition_def)
    from None have u: "usableRecords sys dir (f # files) = usableRecords sys dir files"
      by (simp add: usableRecords_def map_filter_simps)
    from None show ?thesis
      unfolding u
      by (auto simp: parseRecord_def Cons.IH Cons.prems keep split: if_splits sum.splits option.splits)
  next
    case (Some parsed)
    obtain d h where a: "allocDefinition (store w) parsed = (d, h)" by (cases "allocDefinition (store w) parsed")
    from Some have u: "usableRecords sys dir (f # files) = parsed # usableRecords sys dir files"
      by (simp add: usableRecords_def map_filter_simps)
    from Some obtain data where ext: "Ext sys f = ''.json''"
      and rd: "ReadFile sys (Join sys dir f) = Inr data"
      and um: "Unmarshal sys data = Inr parsed"
      by (auto simp: parseRecord_def split: if_splits sum.splits)
    define w' where "w' =
      w\<lparr>connectorDefinitions := AList.update (Name d) d (connectorDefinitions w),
        store := h,
        logs := logs w @ [''ConnectorManager: Loaded definition for connector '' @
                          [CHR 0x27] @ Name d @ [CHR 0x27]]\<rparr>"
    have wf': "wfDefinitions w'"
      unfolding w'_def by (rule lookupDefinition_stored [OF Cons.prems a])
    have look: "lookupDefinition w' n =
                  (if n = Name parsed then Some parsed else lookupDefinition w n)"
      unfolding w'_def by (rule lookupDefinition_stored [OF Cons.prems a])
    have step: "loadDefinitions sys dir (f # files) w = loadDefinitions sys dir files w'"
      using ext rd um a by (simp add: w'_def)
    show ?thesis
      unfolding step u Cons.IH [OF wf'] look
      by (simp add: map_add_def split: option.splits)
  qed
qed

lemma loadDefinitions_frame:
  "runningInstances (loadDefinitions sys dir files w) = runningInstances w
   \<and> connectorsBaseDir (loadDefinitions sys dir files w) = connectorsBaseDir w
   \<and> trace (loadDefinitions sys dir files w) = trace w"
  by (induction files arbitrary: w) (auto simp: Let_def split: sum.splits prod.splits)

lemma loadDefinitions_distinct:
  "distinct (map fst (connectorDefinitions w)) \<Longrightarrow>
   distinct (map fst (connectorDefinitions (loadDefinitions sys dir files w)))"
  by (induction files arbitrary: w)
     (auto simp: Let_def distinct_update split: sum.splits prod.splits)

lemma loadDefinitions_logs:
  "\<exists>new. logs (loadDefinitions sys dir files w) = logs w @ new
         \<and> length (filter isWarning new) = length (skippedRecords sys dir files)"
proof (induction files arbitrary: w)
  case Nil
  show ?case by (simp add: skippedRecords_def)
next
  case (Cons f files)
  show ?case
  proof (cases "Ext sys f = ''.json''")
    case False
    with Cons.IH [of w] show ?thesis by (simp add: skippedRecords_def)
  next
    case True
    show ?thesis
    proof (cases "ReadFile sys (Join sys dir f)")
      case (Inl err)
      define line where "line = ''Warn: Could not read connector definition '' @ Join sys dir f @ '': '' @ err"
      have step: "loadDefinitions sys dir (f # files) w =
                    loadDefinitions sys dir files (w\<lparr>logs := logs w @ [line]\<rparr>)"
        using True Inl by (simp add: line_def)
      have warn: "isWarning line" by (simp add: line_def isWarning_def)
      have skip: "skippedRecords sys dir (f # files) = f # skippedRecords sys dir files"
        using True Inl by (simp add: skippedRecords_def parseRecord_def)
      from Cons.IH [of "w\<lparr>logs := logs w @ [line]\<rparr>"] obtain new where
        "logs (loadDefinitions sys dir files (w\<lparr>logs := logs w @ [line]\<rparr>)) = logs w @ line # new"
        "length (filter isWarning new) = length (skippedRecords sys dir files)" by auto
      with warn show ?thesis unfolding step skip by simp
    next
      case (Inr data)
      show ?thesis
      proof (cases "Unmarshal sys data")
        case (Inl err)
        define line where "line = ''Warn: Could not parse connector definition '' @ Join sys dir f @ '': '' @ err"
        have step: "loadDefinitions sys dir (f # files) w =
                      loadDefinitions sys dir files (w\<lparr>logs := logs w @ [line]\<rparr>)"
          using True Inr Inl by (simp add: line_def)
        have warn: "isWarning line" by (simp add: line_def isWarning_def)
        have skip: "skippedRecords sys dir (f # files) = f # skippedRecords sys dir files"
          using True Inr Inl by (simp add: skippedRecords_def parseRecord_def)
        from Cons.IH [of "w\<lparr>logs := logs w @ [line]\<rparr>"] obtain new where
          "logs (loadDefinitions sys dir files (w\<lparr>logs := logs w @ [line]\<rparr>)) = logs w @ line # new"
          "length (filter isWarning new) = length (skippedRecords sys dir files)" by auto
        with warn show ?thesis unfolding step skip by simp
      next
        case parsed: (Inr p)
        obtain d h where a: "allocDefinition (store w) p = (d, h)"
          by (cases "allocDefinition (store w) p")
        define line where "line = ''ConnectorManager: Loaded definition for connector '' @
                          [CHR 0x27] @ Name d @ [CHR 0x27]"
        define w' where "w' =
          w\<lparr>connectorDefinitions := AList.update (Name d) d (connectorDefinitions w),
            store := h, logs := logs w @ [line]\<rparr>"
        have step: "loadDefinitions sys dir (f # files) w = loadDefinitions sys dir files w'"
          using True Inr parsed a by (simp add: w'_def line_def)
        have warn: "\<not> isWarning line" by (simp add: line_def isWarning_def)
        have skip: "skippedRecords sys dir (f # files) = skippedRecords sys dir files"
          using True Inr parsed by (simp add: skippedRecords_def parseRecord_def)
        from Cons.IH [of w'] obtain new where
          "logs (loadDefinitions sys dir files w') = logs w @ line # new"
          "length (filter isWarning new) = length (skippedRecords sys dir files)"
          by (auto simp: w'_def)
        with warn show ?thesis unfolding step skip by simp
      qed
    qed
  qed
qed

lemma length_update_le: "length (AList.update k v al) \<le> Suc (length al)"
  by (induction al) auto

lemma usableRecords_Cons:
  "usableRecords sys dir (f # files) =
     (case parseRecord sys dir f of
        None \<Rightarrow> usableRecords sys dir files
      | Some p \<Rightarrow> p # usableRecords sys dir files)"
  by (cases "parseRecord sys dir f") (simp_all add: usableRecords_def map_filter_simps)

lemma loadDefinitions_length:
  "length (connectorDefinitions (loadDefinitions sys dir files w))
     \<le> length (connectorDefinitions w) + length (usableRecords sys dir files)"
proof (induction files arbitrary: w)
  case Nil
  show ?case by simp
next
  case (Cons f files)
  have logged: "length (connectorDefinitions (loadDefinitions sys dir files (w\<lparr>logs := l\<rparr>)))
                  \<le> length (connectorDefinitions w) + length (usableRecords sys dir files)" for l
    using Cons.IH [of "w\<lparr>logs := l\<rparr>"] by simp
  show ?case
  proof (cases "Ext sys f = ''.json''")
    case False
    with Cons.IH [of w] show ?thesis
      by (simp add: usableRecords_Cons parseRecord_def)
  next
    case True
    show ?thesis
    proof (cases "ReadFile sys (Join sys dir f)")
      case (Inl err)
      with True logged show ?thesis
        by (simp add: usableRecords_Cons parseRecord_def)
    next
      case (Inr data)
      show ?thesis
      proof (cases "Unmarshal sys data")
        case (Inl err)
        with True Inr logged show ?thesis
          by (simp add: usableRecords_Cons parseRecord_def)
      next
        case parsed: (Inr p)
        obtain d h where a: "allocDefinition (store w) p = (d, h)"
          by (cases "allocDefinition (store w) p")
        define w' where "w' =
          w\<lparr>connectorDefinitions := AList.update (Name d) d (connectorDefinitions w),
            store := h,
            logs := logs w @ [''ConnectorManager: Loaded definition for connector '' @
                              [CHR 0x27] @ Name d @ [CHR 0x27]]\<rparr>"
        have step: "loadDefinitions sys dir (f # files) w = loadDefinitions sys dir files w'"
          using True Inr parsed a by (simp add: w'_def)
        have "length (connectorDefinitions w') \<le> Suc (length (connectorDefinitions w))"
          by (simp add: w'_def length_update_le)
        with Cons.IH [of w'] True Inr parsed show ?thesis
          unfolding step by (simp add: usableRecords_Cons parseRecord_def)
      qed
    qed
  qed
qed


section \<open>Properties of the interleaving\<close>

lemma getOrStartInstance_as_steps:
  "getOrStartInstance sys n w = (r, w') \<Longrightarrow>
   interleave sys n [True, True] (AtEntry, b, w) = (Returned r, b, w')"
  by (auto simp: getOrStartInstance_def split: option.splits)

lemma startLocked_after_miss:
  "fastPath w n = None \<Longrightarrow> startLocked sys n w = spawnInstance sys n w"
  by (auto simp: fastPath_def startLocked_def processRunning_iff split: option.splits if_splits)

section \<open>Properties of Invoke\<close>

lemma sentRequests_append: "sentRequests (xs @ ys) = sentRequests xs @ sentRequests ys"
  by (induction xs rule: sentRequests.induct) simp_all

lemma spawnInstance_sent:
  "spawnInstance sys n w = (r, w1) \<Longrightarrow> sentRequests (trace w1) = sentRequests (trace w)"
  unfolding spawnInstance_def
  by (auto simp: Let_def sentRequests_append split: option.splits stat_result.splits sum.splits)

lemma getOrStartInstance_sent:
  "getOrStartInstance sys n w = (r, w1) \<Longrightarrow> sentRequests (trace w1) = sentRequests (trace w)"
  using spawnInstance_sent [of sys n w r w1]
  unfolding getOrStartInstance_def startLocked_def
  by (auto split: option.splits if_splits)

lemma entry_freeze: "entry (map_option (hget h) m) k = mapIndex h m k"
  by (cases m) (simp_all add: entry_def mapIndex_def)

lemma Invoke_sends:
  assumes g: "getOrStartInstance sys connectorName w = (Inr instance, w1)"
      and d: "DialTimeout sys (''127.0.0.1:'' @ FormatInt sys (Port instance)) = None"
      and m: "mergeConfig (store w1) (DefaultConfig (Definition instance)) connectorConfigOverride = (cfg, h)"
      and i: "Invoke sys connectorName operationName connectorConfigOverride operationParams
                msgCtxIn w = (resp, err, w')"
  shows "sentRequests (trace w') = sentRequests (trace w) @
           [freezeRequest h \<lparr>ConnectorName = connectorName, OperationName = operationName,
                              ConnectorConfig = cfg, OperationParams = operationParams,
                              MessageContextIn = msgCtxIn\<rparr>]"
  using g d m i getOrStartInstance_sent [OF g]
  by (auto simp: Invoke_def Let_def sentRequests_append split: option.splits sum.splits prod.splits)

lemma Invoke_error_shape:
  assumes "Invoke sys connectorName operationName connectorConfigOverride operationParams
             msgCtxIn w = (resp, Some err, w')"
  shows "Success resp = False \<and> ErrorMessage resp \<noteq> ''''
         \<and> (\<exists>prefix. ErrorMessage resp = prefix @ errorText err)
         \<and> MessageContextOut resp = zeroMessageContext"
proof (cases "getOrStartInstance sys connectorName w")
  case (Pair r w1)
  show ?thesis
  proof (cases r)
    case (Inl e)
    with Pair assms getOrStartInstance_error [of sys connectorName w e w1]
    show ?thesis by (auto simp: Invoke_def failed_def)
  next
    case (Inr i)
    with Pair assms show ?thesis
      by (auto simp: Invoke_def failed_def Let_def
          split: option.splits sum.splits prod.splits)
  qed
qed

lemma Invoke_no_send:
  assumes i: "Invoke sys connectorName operationName connectorConfigOverride operationParams
             msgCtxIn w = (resp, err, w')"
      and f: "(\<exists>e w1. getOrStartInstance sys connectorName w = (Inl e, w1))
          \<or> (\<exists>instance w1 e. getOrStartInstance sys connectorName w = (Inr instance, w1)
                \<and> DialTimeout sys (''127.0.0.1:'' @ FormatInt sys (Port instance)) = Some e)"
  shows "err \<noteq> None"
  using i f by (auto simp: Invoke_def Let_def)

lemma Invoke_sent_fails:
  assumes i: "Invoke sys connectorName operationName connectorConfigOverride operationParams
             msgCtxIn w = (resp, err, w')"
      and s: "sentRequests (trace w') = sentRequests (trace w) @ [wire]"
      and f: "EncodeRequest sys wire = Some e \<or> DecodeResponse sys wire = Inl e"
  shows "err \<noteq> None"
proof (cases "getOrStartInstance sys connectorName w")
  case (Pair r w1)
  note sent = getOrStartInstance_sent [OF Pair]
  show ?thesis
  proof (cases r)
    case (Inl e')
    with Pair i show ?thesis by (auto simp: Invoke_def)
  next
    case (Inr inst)
    with Pair have g: "getOrStartInstance sys connectorName w = (Inr inst, w1)" by simp
    show ?thesis
    proof (cases "DialTimeout sys (''127.0.0.1:'' @ FormatInt sys (Port inst))")
      case (Some e')
      with g i show ?thesis by (auto simp: Invoke_def Let_def)
    next
      case None
      obtain cfg h where m: "mergeConfig (store w1) (DefaultConfig (Definition inst))
                               connectorConfigOverride = (cfg, h)"
        by (cases "mergeConfig (store w1) (DefaultConfig (Definition inst)) connectorConfigOverride")
      from Invoke_sends [OF g None m i] s have wire:
        "wire = freezeRequest h \<lparr>ConnectorName = connectorName, OperationName = operationName,
                              ConnectorConfig = cfg, OperationParams = operationParams,
                              MessageContextIn = msgCtxIn\<rparr>" by simp
      from g None m i f show ?thesis
        unfolding wire
        by (auto simp: Invoke_def Let_def split: option.splits sum.splits prod.splits)
    qed
  qed
qed

section \<open>The claims\<close>

text \<open>
  C1 (as amended). When \<^verbatim>\<open>Invoke\<close> fails in definition resolution, process start,
  connect, encode or decode, it returns a non-nil error together with a response that has
  \<^verbatim>\<open>Success = false\<close>, a non-empty \<^verbatim>\<open>ErrorMessage\<close> ending in the text of that error, and
  the zero-valued \<^verbatim>\<open>MessageContextOut\<close>: the input context is not copied into the response.
\<close>

theorem Invoke_failure_response:
  assumes i: "Invoke sys connectorName operationName connectorConfigOverride operationParams
                msgCtxIn w = (resp, err, w')"
      and fail:
        "(\<exists>e w1. getOrStartInstance sys connectorName w = (Inl e, w1))
         \<or> (\<exists>instance w1 e. getOrStartInstance sys connectorName w = (Inr instance, w1)
               \<and> DialTimeout sys (''127.0.0.1:'' @ FormatInt sys (Port instance)) = Some e)
         \<or> (\<exists>wire e. sentRequests (trace w') = sentRequests (trace w) @ [wire]
               \<and> (EncodeRequest sys wire = Some e \<or> DecodeResponse sys wire = Inl e))"
  shows "\<exists>e. err = Some e \<and> Success resp = False \<and> ErrorMessage resp \<noteq> ''''
             \<and> (\<exists>prefix. ErrorMessage resp = prefix @ errorText e)
             \<and> MessageContextOut resp = zeroMessageContext"
proof -
  from fail have "err \<noteq> None"
  proof (elim disjE exE conjE)
    fix e w1 assume "getOrStartInstance sys connectorName w = (Inl e, w1)"
    with i show ?thesis by (intro Invoke_no_send [OF i]) blast
  next
    fix inst w1 e
    assume "getOrStartInstance sys connectorName w = (Inr inst, w1)"
      and "DialTimeout sys (''127.0.0.1:'' @ FormatInt sys (Port inst)) = Some e"
    then show ?thesis by (intro Invoke_no_send [OF i]) blast
  next
    fix wire e
    assume "sentRequests (trace w') = sentRequests (trace w) @ [wire]"
      and "EncodeRequest sys wire = Some e"
    then show ?thesis by (intro Invoke_sent_fails [OF i]) blast+
  next
    fix wire e
    assume "sentRequests (trace w') = sentRequests (trace w) @ [wire]"
      and "DecodeResponse sys wire = Inl e"
    then show ?thesis by (intro Invoke_sent_fails [OF i]) blast+
  qed
  then obtain e where e: "err = Some e" by blast
  from i have "Invoke sys connectorName operationName connectorConfigOverride operationParams
                msgCtxIn w = (resp, Some e, w')" by (simp add: e)
  from Invoke_error_shape [OF this] e show ?thesis by blast
qed

theorem Invoke_failure_response_witness:
  "getOrStartInstance exampleOs ''G'' loadedWorld = (Inl (ErrDefinitionNotFound ''G''), loadedWorld)
   \<and> fst (snd (Invoke exampleOs ''G'' ''create'' None None exampleContext loadedWorld)) \<noteq> None
   \<and> Success (fst (Invoke exampleOs ''G'' ''create'' None None exampleContext loadedWorld)) = False
   \<and> ErrorMessage (fst (Invoke exampleOs ''G'' ''create'' None None exampleContext loadedWorld)) \<noteq> ''''
   \<and> MessageContextOut (fst (Invoke exampleOs ''G'' ''create'' None None exampleContext loadedWorld))
       = zeroMessageContext"
proof -
  let ?r = "Invoke exampleOs ''G'' ''create'' None None exampleContext loadedWorld"
  have g: "getOrStartInstance exampleOs ''G'' loadedWorld =
             (Inl (ErrDefinitionNotFound ''G''), loadedWorld)"
    by (simp add: getOrStartInstance_def fastPath_def startLocked_def spawnInstance_def
        loadedWorld_def)
  have i: "?r = (fst ?r, fst (snd ?r), snd (snd ?r))" by simp
  from g have "\<exists>e w1. getOrStartInstance exampleOs ''G'' loadedWorld = (Inl e, w1)" by blast
  then have "\<exists>e. fst (snd ?r) = Some e \<and> Success (fst ?r) = False \<and> ErrorMessage (fst ?r) \<noteq> ''''
             \<and> (\<exists>prefix. ErrorMessage (fst ?r) = prefix @ errorText e)
             \<and> MessageContextOut (fst ?r) = zeroMessageContext"
    by (intro Invoke_failure_response [OF i]) blast
  with g show ?thesis by auto
qed

text \<open>
  C1 as stated fails: for a connector name without definition the response carries the
  zero-valued context, not the context that was passed in.
\<close>

theorem Invoke_failure_echo_counterexample:
  "fst (snd (Invoke exampleOs ''G'' ''create'' None None exampleContext loadedWorld)) =
     Some (ErrDefinitionNotFound ''G'')
   \<and> MessageContextOut (fst (Invoke exampleOs ''G'' ''create'' None None exampleContext loadedWorld))
       \<noteq> exampleContext"
  by (simp add: Invoke_def getOrStartInstance_def fastPath_def startLocked_def spawnInstance_def
      loadedWorld_def failed_def zeroMessageContext_def exampleContext_def)

text \<open>
  C2. The definition table is not left unchanged: \<^verbatim>\<open>Invoke\<close> merges a per-call override
  into the map that the stored definition's \<^verbatim>\<open>DefaultConfig\<close> refers to. Connector \<open>F\<close> is
  defined with \<open>baseDirectory = /a\<close>; after one successful call with the override
  \<open>{baseDirectory: /b, x: y}\<close> the table's definition reads \<open>{baseDirectory: /b, x: y}\<close>,
  and a later call without override sends that configuration.
\<close>

theorem Invoke_override_changes_definition:
  "lookupDefinition overrideWorld ''F'' = Some definitionF
   \<and> fst (snd (Invoke exampleOs ''F'' ''create'' (Some 1) None exampleContext overrideWorld)) = None
   \<and> lookupDefinition
         (snd (snd (Invoke exampleOs ''F'' ''create'' (Some 1) None exampleContext overrideWorld))) ''F''
       = Some (definitionF\<lparr>DefaultConfig :=
                 Some [(''baseDirectory'', VStr ''/b''), (''x'', VStr ''y'')]\<rparr>)
   \<and> map ConnectorConfig
         (sentRequests (trace (snd (snd
            (Invoke exampleOs ''F'' ''read'' None None exampleContext
               (snd (snd (Invoke exampleOs ''F'' ''create'' (Some 1) None exampleContext
                            overrideWorld))))))))
       = [Some [(''baseDirectory'', VStr ''/b''), (''x'', VStr ''y'')],
          Some [(''baseDirectory'', VStr ''/b''), (''x'', VStr ''y'')]]"
  by (simp add: Invoke_def getOrStartInstance_def fastPath_def processGone_def
      overrideWorld_def startedWorld_def loadedWorld_def instanceF_def exampleOs_def Let_def
      mergeConfig_def mapAssign_def hget_def freezeRequest_def freezeContext_def
      exampleContext_def allocResponse_def allocMap_def lookupDefinition_def
      freezeDefinition_def definitionF_def)

text \<open>
  C3. When \<^verbatim>\<open>Invoke\<close> has an instance and a connection, it writes exactly one request, and
  the \<^verbatim>\<open>ConnectorConfig\<close> of that request maps every key of the override to the
  override's value and every other key to what the instance's default configuration holds
  for it (a nil override or default counts as empty). With default
  \<open>{baseDirectory: /a}\<close> and override \<open>{baseDirectory: /b, x: y}\<close> the request carries
  \<open>{baseDirectory: /b, x: y}\<close>.
\<close>

theorem Invoke_effective_config:
  "(getOrStartInstance sys connectorName w = (Inr instance, w1)
      \<and> DialTimeout sys (''127.0.0.1:'' @ FormatInt sys (Port instance)) = None
      \<and> (\<forall>r. DefaultConfig (Definition instance) = Some r \<longrightarrow> r < length (store w1))
      \<and> (\<forall>r. connectorConfigOverride = Some r \<longrightarrow> distinct (map fst (hget (store w1) r)))
      \<and> Invoke sys connectorName operationName connectorConfigOverride operationParams
            msgCtxIn w = (resp, err, w')
    \<longrightarrow> (\<exists>wire. sentRequests (trace w') = sentRequests (trace w) @ [wire]
           \<and> ConnectorName wire = connectorName \<and> OperationName wire = operationName
           \<and> (\<forall>k. entry (ConnectorConfig wire) k =
                  (case mapIndex (store w1) connectorConfigOverride k of
                     Some v \<Rightarrow> Some v
                   | None \<Rightarrow> mapIndex (store w1) (DefaultConfig (Definition instance)) k))))
   \<and> map ConnectorConfig
         (sentRequests (trace (snd (snd
            (Invoke exampleOs ''F'' ''create'' (Some 1) None exampleContext overrideWorld)))))
       = [Some [(''baseDirectory'', VStr ''/b''), (''x'', VStr ''y'')]]"
proof (intro conjI impI)
  assume a: "getOrStartInstance sys connectorName w = (Inr instance, w1)
      \<and> DialTimeout sys (''127.0.0.1:'' @ FormatInt sys (Port instance)) = None
      \<and> (\<forall>r. DefaultConfig (Definition instance) = Some r \<longrightarrow> r < length (store w1))
      \<and> (\<forall>r. connectorConfigOverride = Some r \<longrightarrow> distinct (map fst (hget (store w1) r)))
      \<and> Invoke sys connectorName operationName connectorConfigOverride operationParams
            msgCtxIn w = (resp, err, w')"
  then have g: "getOrStartInstance sys connectorName w = (Inr instance, w1)"
    and d: "DialTimeout sys (''127.0.0.1:'' @ FormatInt sys (Port instance)) = None"
    and wfd: "\<forall>r. DefaultConfig (Definition instance) = Some r \<longrightarrow> r < length (store w1)"
    and wfo: "\<forall>r. connectorConfigOverride = Some r \<longrightarrow> distinct (map fst (hget (store w1) r))"
    and i: "Invoke sys connectorName operationName connectorConfigOverride operationParams
              msgCtxIn w = (resp, err, w')"
    by blast+
  obtain cfg h where
    m: "mergeConfig (store w1) (DefaultConfig (Definition instance)) connectorConfigOverride = (cfg, h)"
    by (cases "mergeConfig (store w1) (DefaultConfig (Definition instance)) connectorConfigOverride")
  let ?wire = "freezeRequest h \<lparr>ConnectorName = connectorName, OperationName = operationName,
                              ConnectorConfig = cfg, OperationParams = operationParams,
                              MessageContextIn = msgCtxIn\<rparr>"
  have sent: "sentRequests (trace w') = sentRequests (trace w) @ [?wire]"
    by (rule Invoke_sends [OF g d m i])
  have cfg: "entry (ConnectorConfig ?wire) k =
               (case mapIndex (store w1) connectorConfigOverride k of
                  Some v \<Rightarrow> Some v
                | None \<Rightarrow> mapIndex (store w1) (DefaultConfig (Definition instance)) k)" for k
    using mergeConfig_lookup [OF wfd wfo m, of k] by (simp add: freezeRequest_def entry_freeze)
  have names: "ConnectorName ?wire = connectorName \<and> OperationName ?wire = operationName"
    by (simp add: freezeRequest_def)
  from sent cfg names show "\<exists>wire. sentRequests (trace w') = sentRequests (trace w) @ [wire]
           \<and> ConnectorName wire = connectorName \<and> OperationName wire = operationName
           \<and> (\<forall>k. entry (ConnectorConfig wire) k =
                  (case mapIndex (store w1) connectorConfigOverride k of
                     Some v \<Rightarrow> Some v
                   | None \<Rightarrow> mapIndex (store w1) (DefaultConfig (Definition instance)) k))"
    by blast
next
  show "map ConnectorConfig
         (sentRequests (trace (snd (snd
            (Invoke exampleOs ''F'' ''create'' (Some 1) None exampleContext overrideWorld)))))
       = [Some [(''baseDirectory'', VStr ''/b''), (''x'', VStr ''y'')]]"
    by (simp add: Invoke_def getOrStartInstance_def fastPath_def processGone_def
        overrideWorld_def startedWorld_def loadedWorld_def instanceF_def exampleOs_def Let_def
        mergeConfig_def mapAssign_def hget_def freezeRequest_def freezeContext_def
        exampleContext_def allocResponse_def allocMap_def)
qed

theorem Invoke_effective_config_witness:
  "getOrStartInstance exampleOs ''F'' overrideWorld = (Inr instanceF, overrideWorld)
   \<and> DialTimeout exampleOs (''127.0.0.1:'' @ FormatInt exampleOs (Port instanceF)) = None
   \<and> DefaultConfig (Definition instanceF) = Some 0 \<and> 0 < length (store overrideWorld)
   \<and> distinct (map fst (hget (store overrideWorld) 1))
   \<and> (\<exists>wire. sentRequests (trace (snd (snd
            (Invoke exampleOs ''F'' ''create'' (Some 1) None exampleContext overrideWorld)))) = [wire]
          \<and> entry (ConnectorConfig wire) ''baseDirectory'' = Some (VStr ''/b'')
          \<and> entry (ConnectorConfig wire) ''x'' = Some (VStr ''y'')
          \<and> entry (ConnectorConfig wire) ''z'' = None)"
proof -
  let ?r = "Invoke exampleOs ''F'' ''create'' (Some 1) None exampleContext overrideWorld"
  have g: "getOrStartInstance exampleOs ''F'' overrideWorld = (Inr instanceF, overrideWorld)"
    by (simp add: getOrStartInstance_def fastPath_def processGone_def overrideWorld_def
        startedWorld_def instanceF_def)
  have d: "DialTimeout exampleOs (''127.0.0.1:'' @ FormatInt exampleOs (Port instanceF)) = None"
    by (simp add: exampleOs_def)
  have c: "DefaultConfig (Definition instanceF) = Some 0" by (simp add: instanceF_def)
  have s: "store overrideWorld =
             [[(''baseDirectory'', VStr ''/a'')], [(''baseDirectory'', VStr ''/b''), (''x'', VStr ''y'')]]"
    by (simp add: overrideWorld_def startedWorld_def loadedWorld_def)
  have t: "sentRequests (trace overrideWorld) = []"
    by (simp add: overrideWorld_def startedWorld_def loadedWorld_def)
  have wfd: "\<forall>r. DefaultConfig (Definition instanceF) = Some r \<longrightarrow> r < length (store overrideWorld)"
    by (simp add: c s)
  have wfo: "\<forall>r. Some (1::nat) = Some r \<longrightarrow> distinct (map fst (hget (store overrideWorld) r))"
    by (simp add: s hget_def)
  have i: "?r = (fst ?r, fst (snd ?r), snd (snd ?r))" by simp
  from Invoke_effective_config
         [of exampleOs "''F''" overrideWorld instanceF overrideWorld "Some 1" "''create''" None
             exampleContext "fst ?r" "fst (snd ?r)" "snd (snd ?r)"]
       g d wfd wfo i
  obtain wire where w: "sentRequests (trace (snd (snd ?r))) = sentRequests (trace overrideWorld) @ [wire]"
    and k: "\<forall>k. entry (ConnectorConfig wire) k =
                  (case mapIndex (store overrideWorld) (Some 1) k of
                     Some v \<Rightarrow> Some v
                   | None \<Rightarrow> mapIndex (store overrideWorld) (DefaultConfig (Definition instanceF)) k)"
    by blast
  from k have "entry (ConnectorConfig wire) ''baseDirectory'' = Some (VStr ''/b'')
          \<and> entry (ConnectorConfig wire) ''x'' = Some (VStr ''y'')
          \<and> entry (ConnectorConfig wire) ''z'' = None"
    by (simp add: c s mapIndex_def hget_def)
  with w t g d c s show ?thesis by (simp add: hget_def)
qed

text \<open>
  C4. The worker's \<^verbatim>\<open>createFile\<close> does change the request it was given: on success with a
  non-nil \<^verbatim>\<open>Properties\<close> map it writes \<open>file.write.path\<close> and \<open>file.write.status\<close> into
  the very map the request's \<^verbatim>\<open>MessageContextIn\<close> refers to.
\<close>

theorem createFile_changes_request_properties:
  "Properties (MessageContextIn createRequest) = Some 2
   \<and> hget (wheap createState) 2 = [(''flowName'', VStr ''fileCreateFlow'')]
   \<and> Success (fst (createFile exampleOs createRequest createState))
   \<and> hget (wheap (snd (createFile exampleOs createRequest createState))) 2 =
       [(''flowName'', VStr ''fileCreateFlow''), (''file.write.path'', VStr ''data/t.txt''),
        (''file.write.status'', VStr ''success'')]"
  by (simp add: createFile_def createRequest_def exampleOs_def createState_def mapIndex_def
      hget_def mapAssign_def Let_def)

theorem createFile_changes_request_properties_witness:
  "map fst (hget (wheap createState) 2) = [''flowName'']
   \<and> map fst (hget (wheap (snd (createFile exampleOs createRequest createState))) 2) =
       [''flowName'', ''file.write.path'', ''file.write.status'']"
  using createFile_changes_request_properties by simp

text \<open>
  C6. Whenever a worker operation fails for a business reason (a parameter is missing or is
  no string, a file-system call of the operation returns an error, or the operation is
  unknown), the response has \<^verbatim>\<open>Success = false\<close> and a non-empty \<^verbatim>\<open>ErrorMessage\<close>, and
  its \<^verbatim>\<open>MessageContextOut\<close> is the request's \<^verbatim>\<open>MessageContextIn\<close>, field for field, with
  the maps it refers to unchanged.
\<close>

theorem handleConnection_business_failure:
  assumes h: "handleConnection sys (Inr req) s = (resp, s')"
      and cause: "businessFailure sys req s s'"
  shows "\<not> Success resp \<and> ErrorMessage resp \<noteq> '''' \<and> MessageContextOut resp = MessageContextIn req
         \<and> wheap s' = wheap s"
proof -
  from handleConnection_success [OF h] cause have n: "\<not> Success resp" by simp
  show ?thesis
  proof (cases "OperationName req = ''create''")
    case True
    with h have "createFile sys req s = (resp, s')" by (simp add: handleConnection_def)
    from createFile_failure [OF this n] n show ?thesis by simp
  next
    case notCreate: False
    show ?thesis
    proof (cases "OperationName req = ''read''")
      case True
      with notCreate h have "readFile sys req s = (resp, s')" by (simp add: handleConnection_def)
      from readFile_failure [OF this n] n show ?thesis by simp
    next
      case False
      with notCreate h show ?thesis by (auto simp: handleConnection_def)
    qed
  qed
qed

theorem handleConnection_business_failure_witness:
  "(businessFailure missingOs readRequest readState
      (snd (handleConnection missingOs (Inr readRequest) readState))
    \<and> fst (handleConnection missingOs (Inr readRequest) readState) =
        \<lparr>Success = False, MessageContextOut = MessageContextIn readRequest,
         ErrorMessage = ''failed to read file data/missing.txt: no such file or directory''\<rparr>
    \<and> wheap (snd (handleConnection missingOs (Inr readRequest) readState)) = wheap readState)
   \<and> (businessFailure exampleOs createRequest numericContentState
        (snd (handleConnection exampleOs (Inr createRequest) numericContentState))
      \<and> fst (handleConnection exampleOs (Inr createRequest) numericContentState) =
          \<lparr>Success = False, MessageContextOut = MessageContextIn createRequest,
           ErrorMessage = ''filename or content parameter missing/invalid''\<rparr>
      \<and> wheap (snd (handleConnection exampleOs (Inr createRequest) numericContentState)) =
          wheap numericContentState)
   \<and> (businessFailure mkdirDeniedOs createRequest createState
        (snd (handleConnection mkdirDeniedOs (Inr createRequest) createState))
      \<and> fst (handleConnection mkdirDeniedOs (Inr createRequest) createState) =
          \<lparr>Success = False, MessageContextOut = MessageContextIn createRequest,
           ErrorMessage = ''failed to create base directory data: permission denied''\<rparr>
      \<and> wheap (snd (handleConnection mkdirDeniedOs (Inr createRequest) createState)) = wheap createState)
   \<and> (businessFailure writeDeniedOs createRequest createState
        (snd (handleConnection writeDeniedOs (Inr createRequest) createState))
      \<and> fst (handleConnection writeDeniedOs (Inr createRequest) createState) =
          \<lparr>Success = False, MessageContextOut = MessageContextIn createRequest,
           ErrorMessage = ''failed to write file data/t.txt: permission denied''\<rparr>
      \<and> wheap (snd (handleConnection writeDeniedOs (Inr createRequest) createState)) = wheap createState)
   \<and> (businessFailure exampleOs deleteRequest createState
        (snd (handleConnection exampleOs (Inr deleteRequest) createState))
      \<and> fst (handleConnection exampleOs (Inr deleteRequest) createState) =
          \<lparr>Success = False, MessageContextOut = MessageContextIn deleteRequest,
           ErrorMessage = ''Unknown operation: delete''\<rparr>
      \<and> wheap (snd (handleConnection exampleOs (Inr deleteRequest) createState)) = wheap createState)"
proof -
  let ?r1 = "handleConnection missingOs (Inr readRequest) readState"
  let ?r2 = "handleConnection exampleOs (Inr createRequest) numericContentState"
  let ?r3 = "handleConnection mkdirDeniedOs (Inr createRequest) createState"
  let ?r4 = "handleConnection writeDeniedOs (Inr createRequest) createState"
  let ?r5 = "handleConnection exampleOs (Inr deleteRequest) createState"
  have r1: "?r1 = (fst ?r1, snd ?r1)" and r2: "?r2 = (fst ?r2, snd ?r2)"
    and r3: "?r3 = (fst ?r3, snd ?r3)" and r4: "?r4 = (fst ?r4, snd ?r4)"
    and r5: "?r5 = (fst ?r5, snd ?r5)" by simp_all
  have v1: "?r1 = (\<lparr>Success = False, MessageContextOut = MessageContextIn readRequest,
         ErrorMessage = ''failed to read file data/missing.txt: no such file or directory''\<rparr>,
         readState\<lparr>fsops := [FsReadFile ''data/missing.txt'']\<rparr>)"
    by (simp add: handleConnection_def readFile_def readRequest_def missingOs_def exampleOs_def
        readState_def mapIndex_def hget_def)
  have c1: "businessFailure missingOs readRequest readState (snd ?r1)"
    unfolding v1
    by (simp add: businessFailure_def fileSystemError_def readState_def missingOs_def exampleOs_def)
  have v2: "?r2 = (\<lparr>Success = False, MessageContextOut = MessageContextIn createRequest,
           ErrorMessage = ''filename or content parameter missing/invalid''\<rparr>, numericContentState)"
    by (simp add: handleConnection_def createFile_def createRequest_def exampleOs_def
        numericContentState_def mapIndex_def hget_def)
  have c2: "businessFailure exampleOs createRequest numericContentState (snd ?r2)"
    by (simp add: businessFailure_def parameterError_def stringParameter_def createRequest_def
        numericContentState_def mapIndex_def hget_def)
  have v3: "?r3 = (\<lparr>Success = False, MessageContextOut = MessageContextIn createRequest,
           ErrorMessage = ''failed to create base directory data: permission denied''\<rparr>,
           createState\<lparr>fsops := [FsMkdirAll ''data'']\<rparr>)"
    by (simp add: handleConnection_def createFile_def createRequest_def mkdirDeniedOs_def
        exampleOs_def createState_def mapIndex_def hget_def Let_def)
  have c3: "businessFailure mkdirDeniedOs createRequest createState (snd ?r3)"
    unfolding v3
    by (simp add: businessFailure_def fileSystemError_def createState_def mkdirDeniedOs_def exampleOs_def)
  have v4: "?r4 = (\<lparr>Success = False, MessageContextOut = MessageContextIn createRequest,
           ErrorMessage = ''failed to write file data/t.txt: permission denied''\<rparr>,
           createState\<lparr>fsops := [FsMkdirAll ''data'', FsWriteFile ''data/t.txt'' ''hi'']\<rparr>)"
    by (simp add: handleConnection_def createFile_def createRequest_def writeDeniedOs_def
        exampleOs_def createState_def mapIndex_def hget_def Let_def)
  have c4: "businessFailure writeDeniedOs createRequest createState (snd ?r4)"
    unfolding v4
    by (simp add: businessFailure_def fileSystemError_def createState_def writeDeniedOs_def exampleOs_def)
  have v5: "?r5 = (\<lparr>Success = False, MessageContextOut = MessageContextIn deleteRequest,
           ErrorMessage = ''Unknown operation: delete''\<rparr>, createState)"
    by (simp add: handleConnection_def deleteRequest_def createRequest_def)
  have c5: "businessFailure exampleOs deleteRequest createState (snd ?r5)"
    by (simp add: businessFailure_def unknownOperation_def deleteRequest_def)
  from handleConnection_business_failure [OF r1 c1] handleConnection_business_failure [OF r2 c2]
    handleConnection_business_failure [OF r3 c3] handleConnection_business_failure [OF r4 c4]
    handleConnection_business_failure [OF r5 c5] c1 c2 c3 c4 c5
  show ?thesis
    by (simp add: v1 v2 v3 v4 v5)
qed

text \<open>
  C7. When the definitions directory can be listed, \<^verbatim>\<open>NewConnectorManager\<close> returns a
  manager: looking a name up gives the last usable record of that name in listing order and
  nothing for any other name, no two stored definitions share a name, the table holds at
  most as many definitions as there are usable records (none if there is none), every
  skipped record is logged with one warning, and nothing is running.
\<close>

theorem NewConnectorManager_loads:
  assumes "ReadDir sys definitionsDir = Inr files"
  shows "\<exists>cm. NewConnectorManager sys definitionsDir baseDir w0 = Inr cm
           \<and> (\<forall>name. lookupDefinition cm name =
                  map_of (rev (map (\<lambda>d. (Name d, d)) (usableRecords sys definitionsDir files))) name)
           \<and> distinct (map fst (connectorDefinitions cm))
           \<and> length (connectorDefinitions cm) \<le> length (usableRecords sys definitionsDir files)
           \<and> (\<exists>new. logs cm = logs w0 @ new
                  \<and> length (filter isWarning new) =
                      length (skippedRecords sys definitionsDir files))
           \<and> runningInstances cm = []"
proof -
  define start where "start = w0\<lparr>connectorDefinitions := [], runningInstances := [],
                                  connectorsBaseDir := baseDir\<rparr>"
  have new: "NewConnectorManager sys definitionsDir baseDir w0 =
               Inr (loadDefinitions sys definitionsDir files start)"
    using assms by (simp add: NewConnectorManager_def start_def)
  have wf: "wfDefinitions start" by (simp add: wfDefinitions_def start_def)
  have look: "lookupDefinition (loadDefinitions sys definitionsDir files start) name =
       map_of (rev (map (\<lambda>d. (Name d, d)) (usableRecords sys definitionsDir files))) name"
    for name
    unfolding loadDefinitions_lookup [OF wf]
    by (simp add: lookupDefinition_def start_def split: option.splits)
  have dist: "distinct (map fst (connectorDefinitions (loadDefinitions sys definitionsDir files start)))"
    by (rule loadDefinitions_distinct) (simp add: start_def)
  have none: "length (connectorDefinitions (loadDefinitions sys definitionsDir files start))
                \<le> length (usableRecords sys definitionsDir files)"
    using loadDefinitions_length [of sys definitionsDir files start] by (simp add: start_def)
  have lg: "\<exists>new. logs (loadDefinitions sys definitionsDir files start) = logs w0 @ new
                  \<and> length (filter isWarning new) =
                      length (skippedRecords sys definitionsDir files)"
    using loadDefinitions_logs [of sys definitionsDir files start] by (simp add: start_def)
  have run: "runningInstances (loadDefinitions sys definitionsDir files start) = []"
    by (simp add: loadDefinitions_frame start_def)
  from new look dist none lg run show ?thesis by simp
qed

theorem NewConnectorManager_loads_witness:
  "ReadDir exampleOs ''defs'' = Inr [''bad.json'', ''f.json'', ''notes.txt'']
   \<and> (\<exists>cm. NewConnectorManager exampleOs ''defs'' ''connectors'' emptyWorld = Inr cm
          \<and> lookupDefinition cm ''F'' = Some definitionF
          \<and> lookupDefinition cm ''G'' = None
          \<and> length (connectorDefinitions cm) \<le> 1
          \<and> length (filter isWarning (logs cm)) = 1)"
proof -
  have rd: "ReadDir exampleOs ''defs'' = Inr [''bad.json'', ''f.json'', ''notes.txt'']"
    by (simp add: exampleOs_def)
  have u: "usableRecords exampleOs ''defs'' [''bad.json'', ''f.json'', ''notes.txt''] = [definitionF]"
    by (simp add: usableRecords_def map_filter_simps parseRecord_def exampleOs_def)
  have k: "skippedRecords exampleOs ''defs'' [''bad.json'', ''f.json'', ''notes.txt''] = [''bad.json'']"
    by (simp add: skippedRecords_def parseRecord_def exampleOs_def)
  from NewConnectorManager_loads [OF rd, of "''connectors''" emptyWorld]
  show ?thesis
    unfolding u k by (auto simp: rd definitionF_def emptyWorld_def)
qed

text \<open>
  C8. When \<^verbatim>\<open>Invoke\<close> has an instance and the connection to its port fails, the call
  returns the connection error with a message naming the connector, and the failure
  changes nothing in the instance table: the table is as \<^verbatim>\<open>getOrStartInstance\<close> left it
  (as before the call, if the instance was already running), the instance is still tracked
  as running, and no process is started.
\<close>

theorem Invoke_connect_failure:
  assumes g: "getOrStartInstance sys connectorName w = (Inr instance, w1)"
      and d: "DialTimeout sys (''127.0.0.1:'' @ FormatInt sys (Port instance)) = Some e"
      and i: "Invoke sys connectorName operationName connectorConfigOverride operationParams
             msgCtxIn w = (resp, err, w')"
  shows "err = Some (ErrDial e)
         \<and> resp = failed (''failed to connect to connector '' @ [CHR 0x27] @ connectorName @
                           [CHR 0x27] @ '': '' @ e)
         \<and> runningInstances w' = runningInstances w1
         \<and> map_of (runningInstances w') connectorName = Some instance
         \<and> processRunning instance
         \<and> spawnCount w' = spawnCount w1
         \<and> (fastPath w connectorName = Some instance \<longrightarrow> runningInstances w' = runningInstances w)"
proof -
  let ?address = "''127.0.0.1:'' @ FormatInt sys (Port instance)"
  have "Invoke sys connectorName operationName connectorConfigOverride operationParams msgCtxIn w =
          (failed (''failed to connect to connector '' @ [CHR 0x27] @ connectorName @
                   [CHR 0x27] @ '': '' @ e),
           Some (ErrDial e), w1\<lparr>trace := trace w1 @ [ActDial ?address]\<rparr>)"
    using g d by (simp add: Invoke_def Let_def)
  with i have r: "resp = failed (''failed to connect to connector '' @ [CHR 0x27] @ connectorName @
                   [CHR 0x27] @ '': '' @ e)"
    and e: "err = Some (ErrDial e)"
    and w': "w' = w1\<lparr>trace := trace w1 @ [ActDial ?address]\<rparr>" by simp_all
  have same: "fastPath w connectorName = Some instance \<longrightarrow> runningInstances w' = runningInstances w"
  proof
    assume "fastPath w connectorName = Some instance"
    then have "getOrStartInstance sys connectorName w = (Inr instance, w)"
      by (simp add: getOrStartInstance_def)
    with g have "w1 = w" by simp
    with w' show "runningInstances w' = runningInstances w" by simp
  qed
  from getOrStartInstance_ok [OF g] r e w' same show ?thesis
    by (simp add: spawnCount_def)
qed

theorem Invoke_connect_failure_witness:
  "getOrStartInstance refusingOs ''F'' startedWorld = (Inr instanceF, startedWorld)
   \<and> DialTimeout refusingOs (''127.0.0.1:'' @ FormatInt refusingOs (Port instanceF)) =
       Some ''connection refused''
   \<and> fastPath startedWorld ''F'' = Some instanceF
   \<and> fst (snd (Invoke refusingOs ''F'' ''read'' None None exampleContext startedWorld)) =
       Some (ErrDial ''connection refused'')
   \<and> ErrorMessage (fst (Invoke refusingOs ''F'' ''read'' None None exampleContext startedWorld)) =
       ''failed to connect to connector '' @ [CHR 0x27] @ ''F'' @ [CHR 0x27] @ '': connection refused''
   \<and> runningInstances (snd (snd (Invoke refusingOs ''F'' ''read'' None None exampleContext
         startedWorld))) = runningInstances startedWorld
   \<and> spawnCount (snd (snd (Invoke refusingOs ''F'' ''read'' None None exampleContext
         startedWorld))) = spawnCount startedWorld"
proof -
  let ?r = "Invoke refusingOs ''F'' ''read'' None None exampleContext startedWorld"
  have f: "fastPath startedWorld ''F'' = Some instanceF"
    by (simp add: fastPath_def processGone_def instanceF_def startedWorld_def)
  then have g: "getOrStartInstance refusingOs ''F'' startedWorld = (Inr instanceF, startedWorld)"
    by (simp add: getOrStartInstance_def)
  have d: "DialTimeout refusingOs (''127.0.0.1:'' @ FormatInt refusingOs (Port instanceF)) =
             Some ''connection refused''"
    by (simp add: refusingOs_def exampleOs_def)
  have i: "?r = (fst ?r, fst (snd ?r), snd (snd ?r))" by simp
  from Invoke_connect_failure [OF g d i] f g d show ?thesis
    by (simp add: failed_def)
qed

text \<open>
  C9. \<^verbatim>\<open>ShutdownAll\<close> returns nothing that could be an error and leaves no tracked
  instance; a second call right after it leaves no tracked instance either and changes
  nothing at all.
\<close>

theorem ShutdownAll_idempotent:
  "runningInstances (ShutdownAll sys w) = []
   \<and> runningInstances (ShutdownAll sys' (ShutdownAll sys w)) = []
   \<and> ShutdownAll sys' (ShutdownAll sys w) = ShutdownAll sys w"
  by (simp add: ShutdownAll_def)

text \<open>
  C10. Two callers run \<^verbatim>\<open>getOrStartInstance\<close> for the same name while no healthy instance
  is tracked, and the first start that is attempted succeeds. Whatever the schedule, once
  both have returned exactly one process has been started, both hold that instance, and the
  state is the one the single start left: the caller that takes the write lock second finds
  the instance in its re-check.
\<close>

theorem concurrent_callers_spawn_once:
  assumes miss: "fastPath w connectorName = None"
      and start: "startLocked sys connectorName w = (Inr instance, w1)"
      and run: "interleave sys connectorName sched (AtEntry, AtEntry, w) = (Returned ra, Returned rb, w')"
  shows "spawnCount w' = Suc (spawnCount w) \<and> ra = Inr instance \<and> rb = Inr instance \<and> w' = w1"
proof -
  from miss start have sp: "spawnInstance sys connectorName w = (Inr instance, w1)"
    by (simp add: startLocked_after_miss)
  note ok = spawnInstance_ok [OF sp]
  from ok have tracked: "map_of (runningInstances w1) connectorName = Some instance"
    by blast
  from ok have running: "processRunning instance"
    by blast
  from tracked running have hit: "fastPath w1 connectorName = Some instance"
    by (simp add: fastPath_def processRunning_iff)
  from tracked running have again: "startLocked sys connectorName w1 = (Inr instance, w1)"
    by (simp add: startLocked_def)
  define waiting where "waiting p = (p = AtEntry \<or> p = AtLock)" for p :: pc
  define finished where "finished p = (p = Returned (Inr instance))" for p :: pc
  define inv where "inv c =
    (case c of (a, b, v) \<Rightarrow>
       (v = w \<and> waiting a \<and> waiting b)
       \<or> (v = w1 \<and> (waiting a \<or> finished a) \<and> (waiting b \<or> finished b) \<and> (finished a \<or> finished b)))"
    for c :: "pc \<times> pc \<times> world"
  have step_w: "waiting p \<Longrightarrow> stepCaller sys connectorName p w = (p', v) \<Longrightarrow>
                 (v = w \<and> waiting p') \<or> (v = w1 \<and> finished p')" for p p' v
    using miss start by (auto simp: waiting_def finished_def)
  have step_w1: "waiting p \<or> finished p \<Longrightarrow> stepCaller sys connectorName p w1 = (p', v) \<Longrightarrow>
                 v = w1 \<and> finished p'" for p p' v
    using hit again by (auto simp: waiting_def finished_def)
  have keep: "inv c \<Longrightarrow> inv (interleave sys connectorName s c)" for s c
  proof (induction s arbitrary: c)
    case Nil
    then show ?case by simp
  next
    case (Cons first s)
    obtain a b v where c: "c = (a, b, v)" by (cases c)
    show ?case
    proof (cases first)
      case True
      obtain a' v' where st: "stepCaller sys connectorName a v = (a', v')"
        by (cases "stepCaller sys connectorName a v")
      from Cons.prems st step_w [of a a' v'] step_w1 [of a a' v'] have "inv (a', b, v')"
        unfolding c inv_def by auto
      from Cons.IH [OF this] True st show ?thesis by (simp add: c)
    next
      case False
      obtain b' v' where st: "stepCaller sys connectorName b v = (b', v')"
        by (cases "stepCaller sys connectorName b v")
      from Cons.prems st step_w [of b b' v'] step_w1 [of b b' v'] have "inv (a, b', v')"
        unfolding c inv_def by auto
      from Cons.IH [OF this] False st show ?thesis by (simp add: c)
    qed
  qed
  have "inv (AtEntry, AtEntry, w)" by (simp add: inv_def waiting_def)
  from keep [OF this, of sched] run have "inv (Returned ra, Returned rb, w')" by simp
  then have "w' = w1 \<and> ra = Inr instance \<and> rb = Inr instance"
    by (auto simp: inv_def waiting_def finished_def)
  with ok show ?thesis by simp
qed

theorem concurrent_callers_spawn_once_witness:
  "fastPath loadedWorld ''F'' = None
   \<and> startLocked exampleOs ''F'' loadedWorld = (Inr instanceF, startedWorld)
   \<and> interleave exampleOs ''F'' [True, False, False, True] (AtEntry, AtEntry, loadedWorld) =
       (Returned (Inr instanceF), Returned (Inr instanceF), startedWorld)
   \<and> spawnCount startedWorld = Suc (spawnCount loadedWorld)"
proof -
  have m: "fastPath loadedWorld ''F'' = None"
    by (simp add: fastPath_def loadedWorld_def)
  have s: "startLocked exampleOs ''F'' loadedWorld = (Inr instanceF, startedWorld)"
    by (simp add: startLocked_def spawnInstance_def loadedWorld_def exampleOs_def instanceF_def
        startedWorld_def Let_def)
  have r: "interleave exampleOs ''F'' [True, False, False, True] (AtEntry, AtEntry, loadedWorld) =
             (Returned (Inr instanceF), Returned (Inr instanceF), startedWorld)"
    by (simp add: fastPath_def startLocked_def spawnInstance_def processRunning_def
        loadedWorld_def exampleOs_def instanceF_def startedWorld_def Let_def)
  from concurrent_callers_spawn_once [OF m s r] m s r show ?thesis by simp
qed

end
